theory Spec2Isabelle
  imports Complex_Main "HOL-Library.List_Lexorder" "HOL-Library.Char_ord"
    "HOL-Library.Product_Lexorder" "HOL-Library.AList"
begin

section \<open>Strings\<close>

text \<open>
  Strings are ASCII texts. \<open>upper\<close> and \<open>lower\<close> are Python's \<^verbatim>\<open>str.upper\<close> and
  \<^verbatim>\<open>str.lower\<close> on the 26 letters, \<open>str_in p s\<close> is Python's \<^verbatim>\<open>p in s\<close>
  (substring containment).
\<close>

definition lower_letters :: string where
  "lower_letters = ''abcdefghijklmnopqrstuvwxyz''"

definition upper_letters :: string where
  "upper_letters = ''ABCDEFGHIJKLMNOPQRSTUVWXYZ''"

definition upper_char :: "char \<Rightarrow> char" where
  "upper_char c = (case map_of (zip lower_letters upper_letters) c of Some u \<Rightarrow> u | None \<Rightarrow> c)"

definition upper :: "string \<Rightarrow> string" where
  "upper s = map upper_char s"

definition lower_char :: "char \<Rightarrow> char" where
  "lower_char c = (case map_of (zip upper_letters lower_letters) c of Some l \<Rightarrow> l | None \<Rightarrow> c)"

definition lower :: "string \<Rightarrow> string" where
  "lower s = map lower_char s"

fun starts_with :: "string \<Rightarrow> string \<Rightarrow> bool" where
  "starts_with s [] = True"
| "starts_with [] (p # ps) = False"
| "starts_with (c # cs) (p # ps) = (c = p \<and> starts_with cs ps)"

fun str_in :: "string \<Rightarrow> string \<Rightarrow> bool" where
  "str_in p [] = (p = [])"
| "str_in p (c # cs) = (starts_with (c # cs) p \<or> str_in p cs)"

text \<open>
  The source builds every regular expression as \<^verbatim>\<open>'|'.join(names)\<close> from a list of
  constants, none of which holds a character that is special in a regular expression, so
  \<^verbatim>\<open>re.search\<close> with such a pattern finds a match exactly when one of the names is a
  substring of the text. \<open>regex_special\<close> lists the special characters; the lemmas
  \<open>*_literal\<close> below check each list of constants against it.
\<close>

definition regex_special :: string where
  "regex_special = [CHR ''.'', CHR ''^'', CHR ''$'', CHR ''*'', CHR ''+'', CHR ''?'',
     CHR ''{'', CHR ''}'', CHR ''['', CHR '']'', CHR 0x5C, CHR ''|'', CHR ''('', CHR '')'']"

definition literal_names :: "string list \<Rightarrow> bool" where
  "literal_names names = list_all (\<lambda>n. n \<noteq> [] \<and> list_all (\<lambda>c. c \<notin> set regex_special) n) names"

definition search_any :: "string list \<Rightarrow> string \<Rightarrow> bool" where
  "search_any names s = list_ex (\<lambda>n. str_in n s) names"

definition search_any_nocase :: "string list \<Rightarrow> string \<Rightarrow> bool" where
  "search_any_nocase names s = list_ex (\<lambda>n. str_in (upper n) (upper s)) names"

section \<open>Tables\<close>

text \<open>
  A pandas DataFrame is a list of column names and a list of rows, each row holding one
  cell per column. A cell is a missing value (\<open>NaN\<close>), a text or a number; a number is
  the rational it stands for, and the two infinities arise from a division by zero or from
  a floating-point operation that overflows. What the source and the library raise on a
  missing column, on a column of the wrong type, on a missing row and on a missing file or
  directory is a result of type \<open>error\<close>.
\<close>

datatype cell = NaN | Str string | Num rat | PosInf | NegInf

record table =
  columns :: "string list"
  rows :: "cell list list"

datatype error =
  KeyError string | IndexError | TypeError | ValueError string | HTTPError
  | FileNotFoundError string | ParserError | AttributeError | OSError string
  | FileExistsError string | IsADirectoryError string

definition empty_df :: table where
  "empty_df = \<lparr>columns = [], rows = []\<rparr>"

definition df_empty :: "table \<Rightarrow> bool" where
  "df_empty df = (columns df = [] \<or> rows df = [])"

definition head0 :: "table \<Rightarrow> table" where
  "head0 df = \<lparr>columns = columns df, rows = []\<rparr>"

definition cell_at :: "string list \<Rightarrow> cell list \<Rightarrow> string \<Rightarrow> cell" where
  "cell_at cols r c = (case map_of (zip cols r) c of Some v \<Rightarrow> v | None \<Rightarrow> NaN)"

definition col_values :: "table \<Rightarrow> string \<Rightarrow> cell list" where
  "col_values df c = map (\<lambda>r. cell_at (columns df) r c) (rows df)"

definition select_rows :: "(cell list \<Rightarrow> bool) \<Rightarrow> table \<Rightarrow> table" where
  "select_rows p df = \<lparr>columns = columns df, rows = filter p (rows df)\<rparr>"

fun first_present :: "string list \<Rightarrow> string list \<Rightarrow> string option" where
  "first_present [] cols = None"
| "first_present (c # cs) cols = (if c \<in> set cols then Some c else first_present cs cols)"

text \<open>\<open>first_missing cs df\<close> is the first name of \<open>cs\<close> that is no column of the table.\<close>

fun first_missing :: "string list \<Rightarrow> table \<Rightarrow> string option" where
  "first_missing [] df = None"
| "first_missing (c # cs) df = (if c \<in> set (columns df) then first_missing cs df else Some c)"

definition astype_str :: "(rat \<Rightarrow> string) \<Rightarrow> cell \<Rightarrow> string" where
  "astype_str fmt x =
     (case x of NaN \<Rightarrow> ''nan'' | Str s \<Rightarrow> s | Num q \<Rightarrow> fmt q | PosInf \<Rightarrow> ''inf'' | NegInf \<Rightarrow> ''-inf'')"

section \<open>The fetcher: region filter\<close>

definition upstate_ny_counties :: "string list" where
  "upstate_ny_counties =
     [''ALBANY'', ''SCHENECTADY'', ''RENSSELAER'', ''SARATOGA'',
      ''COLUMBIA'', ''GREENE'', ''WARREN'', ''WASHINGTON'',
      ''FULTON'', ''MONTGOMERY'', ''SCHOHARIE'', ''DELAWARE'']"

definition ny_state_code :: string where
  "ny_state_code = ''NY''"

definition possible_state_cols :: "string list" where
  "possible_state_cols =
     [''Rndrng_Prvdr_State_Abrvtn'', ''Rndrng_Prvdr_State'', ''State_Abrvtn'', ''State'']"

definition possible_county_cols :: "string list" where
  "possible_county_cols =
     [''Rndrng_Prvdr_State_FIPS'', ''Rndrng_Prvdr_County'', ''County'', ''County_FIPS'']"

text \<open>
  \<open>state_level df state_col\<close> is \<^verbatim>\<open>df[df[state_col] == self.ny_state_code]\<close>, and
  \<open>county_level fmt ny county_col\<close> is \<^verbatim>\<open>ny_providers[upstate_mask]\<close>, where the mask
  converts the county cell to a string (\<open>fmt\<close> is Python's rendering of a number),
  upper-cases it and looks for any county name in it.
\<close>

definition state_level :: "table \<Rightarrow> string \<Rightarrow> table" where
  "state_level df state_col =
     select_rows (\<lambda>r. cell_at (columns df) r state_col = Str ny_state_code) df"

definition upstate_mask :: "(rat \<Rightarrow> string) \<Rightarrow> cell \<Rightarrow> bool" where
  "upstate_mask fmt x = list_ex (\<lambda>county. str_in county (upper (astype_str fmt x))) upstate_ny_counties"

definition county_level :: "(rat \<Rightarrow> string) \<Rightarrow> table \<Rightarrow> string \<Rightarrow> table" where
  "county_level fmt ny county_col =
     select_rows (\<lambda>r. upstate_mask fmt (cell_at (columns ny) r county_col)) ny"

definition filter_upstate_ny_providers :: "(rat \<Rightarrow> string) \<Rightarrow> table \<Rightarrow> table" where
  "filter_upstate_ny_providers fmt df =
     (case first_present possible_state_cols (columns df) of
        None \<Rightarrow> head0 df
      | Some state_col \<Rightarrow>
          let ny_providers = state_level df state_col in
          (case first_present possible_county_cols (columns df) of
             None \<Rightarrow> ny_providers
           | Some county_col \<Rightarrow>
               let upstate_providers = county_level fmt ny_providers county_col in
               if length (rows upstate_providers) > 0 then upstate_providers else ny_providers))"

section \<open>Column types\<close>

text \<open>
  Every column of a DataFrame has a dtype, and a selection of rows keeps it.
  \<^verbatim>\<open>read_csv\<close> gives the dtype \<^verbatim>\<open>int64\<close> to a column of integers,
  \<^verbatim>\<open>float64\<close> to a column of numbers with a fraction or a blank (also to a column
  that is blank in every row), and \<^verbatim>\<open>object\<close> to a column that holds a text. The
  dtypes of a table are a function of the column name, given next to the table.

  The accessor \<^verbatim>\<open>.str\<close> of a column raises \<^verbatim>\<open>AttributeError\<close> unless the
  dtype is \<^verbatim>\<open>object\<close> and the values other than the missing one hold a text or are
  none at all (\<open>text_column\<close>). On such a column a text test reads a cell that is no text
  as missing; \<open>str_test dt df col p\<close> is the boolean Series of a test \<open>p\<close>.
\<close>

datatype dtype = Object | Int64 | Float64

type_synonym dtypes = "string \<Rightarrow> dtype"

definition is_text :: "cell \<Rightarrow> bool" where
  "is_text x = (case x of Str s \<Rightarrow> True | _ \<Rightarrow> False)"

definition text_column :: "dtypes \<Rightarrow> table \<Rightarrow> string \<Rightarrow> bool" where
  "text_column dt df col =
     (dt col = Object \<and>
      (list_ex is_text (col_values df col) \<or> list_all (\<lambda>x. x = NaN) (col_values df col)))"

text \<open>
  \<open>string_column\<close> is a column as \<^verbatim>\<open>read_csv\<close> yields it for texts: the dtype is
  \<^verbatim>\<open>object\<close> and every cell is a text or missing. Every selection of its rows is a
  column that \<^verbatim>\<open>.str\<close> accepts. \<open>string_columns dt df cols\<close>: the columns of the
  list that the table has are such columns.
\<close>

definition string_column :: "dtypes \<Rightarrow> table \<Rightarrow> string \<Rightarrow> bool" where
  "string_column dt df col =
     (dt col = Object \<and> list_all (\<lambda>x. is_text x \<or> x = NaN) (col_values df col))"


definition str_test :: "dtypes \<Rightarrow> table \<Rightarrow> string \<Rightarrow> (cell \<Rightarrow> bool) \<Rightarrow> error + bool list" where
  "str_test dt df col p =
     (if text_column dt df col then Inr (map p (col_values df col)) else Inl AttributeError)"

section \<open>The fetcher: target population\<close>

definition community_care_practices :: "string list" where
  "community_care_practices =
     [''COMMUNITY CARE'', ''COMMUNITYCARE'', ''COMMUNITY CARE PHYSICIANS'',
      ''CCP'', ''COMMUNITY CARE FAMILY MEDICINE'', ''COMMUNITY CARE PEDIATRICS'',
      ''COMMUNITY CARE INTERNAL MEDICINE'', ''LATHAM MEDICAL GROUP'',
      ''CAPITAL REGION FAMILY HEALTH'', ''FAMILY CARE PHYSICIANS'',
      ''SCHOOLHOUSE ROAD PEDIATRICS'', ''ALBANY FAMILY PRACTICE'',
      ''CAPITAL CARE'', ''CAPITALCARE'', ''CAPITAL CARE MEDICAL GROUP'',
      ''CAPITAL DISTRICT INTERNAL MEDICINE'', ''CAPITAL DISTRICT RENAL'',
      ''UROLOGICAL INSTITUTE OF NORTHEASTERN NY'', ''UROLOGY INSTITUTE'',
      ''ALBANY GASTROENTEROLOGY'', ''ALBANY GASTRO'', ''ALBANY UROLOGY'',
      ''ALBANY OBSTETRICS & GYNECOLOGY'', ''ALBANY OB GYN'', ''ALBANY OB-GYN'',
      ''UPSTATE INFECTIOUS DISEASES'', ''UPSTATE NEUROLOGY'',
      ''NEUROLOGY GROUP OF UPSTATE NY'', ''NEUROLOGY GROUP'',
      ''CAPITAL REGION MIDWIFERY'', ''CAPITAL REGION WOMEN'S CARE'',
      ''WOMEN'S CARE'', ''WOMENS CARE'', ''CAPITAL CARDIOLOGY'',
      ''CARDIOLOGY ASSOCIATES OF SCHENECTADY'', ''CARDIOLOGY ASSOCIATES'',
      ''Advanced Gastroenterology'',
      ''Albany Family Medicine'',
      ''Burnt Hills Pediatrics and Internal Medicine'',
      ''Capital Healthcare Associates'',
      ''Capital Region Family Medicine'',
      ''Capital Region Gastroenterology'',
      ''Capital Region Women's Care'',
      ''CapitalCare Charlton Family Medicine'',
      ''CapitalCare Developmental Pediatrics'',
      ''CapitalCare Family MedEsthetics'',
      ''Community Care Physicians'',
      ''CommunityCarePCP'']"

definition org_name_cols :: "string list" where
  "org_name_cols =
     [''Rndrng_Prvdr_Org_Name'', ''Org_Name'', ''Rndrng_Prvdr_Org_Lgl_Name'',
      ''Rndrng_Prvdr_Org_DBA_Name'']"

definition grp_pac_id_col :: string where
  "grp_pac_id_col = ''Rndrng_Prvdr_Grp_Pac_ID''"

definition upstate_cities :: "string list" where
  "upstate_cities =
     [''ALBANY'', ''LATHAM'', ''CLIFTON PARK'', ''DELMAR'', ''SARATOGA SPRINGS'',
      ''SCHENECTADY'', ''NISKAYUNA'', ''TROY'', ''EAST GREENBUSH'', ''SLINGERLANDS'',
      ''BALLSTON SPA'', ''MALTA'', ''GUILDERLAND'', ''COHOES'', ''COLONIE'',
      ''GLENVILLE'', ''GLENS FALLS'', ''QUEENSBURY'', ''BURNT HILLS'', ''MECHANICVILLE'']"

definition city_cols :: "string list" where
  "city_cols = [''Rndrng_Prvdr_City'', ''City'']"

definition common_specialties :: "string list" where
  "common_specialties =
     [''FAMILY PRACTICE'', ''INTERNAL MEDICINE'', ''PEDIATRICS'',
      ''OBSTETRICS/GYNECOLOGY'', ''GASTROENTEROLOGY'', ''UROLOGY'',
      ''CARDIOLOGY'', ''NEUROLOGY'', ''NEPHROLOGY'', ''INFECTIOUS DISEASE'',
      ''FAMILY MEDICINE'', ''GENERAL PRACTICE'', ''PRIMARY CARE'']"

definition specialty_cols :: "string list" where
  "specialty_cols = [''Rndrng_Prvdr_Type'', ''Provider_Type'', ''Specialty'']"

definition address_patterns :: "string list" where
  "address_patterns =
     [''1 PINNACLE'', ''711 TROY-SCHENECTADY'', ''2 CHELSEA'', ''2 PALISADES'',
      ''1785 WESTERN'', ''1444 WESTERN'', ''1201 NOTT'', ''2546 BALLTOWN'',
      ''1 TALLOW WOOD'', ''6 EXECUTIVE PARK'', ''4 PALISADES'', ''1 COLUMBIA'']"

definition address_cols :: "string list" where
  "address_cols = [''Rndrng_Prvdr_St1'', ''Rndrng_Prvdr_St2'', ''Street1'', ''Street2'']"

text \<open>
  The two text tests of the source on one cell of a column that \<^verbatim>\<open>.str\<close> accepts:
  \<open>contains_nocase names\<close> is \<^verbatim>\<open>.str.contains(pattern, case=False, na=False)\<close> and
  \<open>upper_contains names\<close> is \<^verbatim>\<open>.str.upper().str.contains(pattern, na=False)\<close>.
  A missing value gives False (\<^verbatim>\<open>na=False\<close>). On a column they are applied through
  \<open>str_test\<close>, which raises on a column that \<^verbatim>\<open>.str\<close> refuses.
\<close>

definition contains_nocase :: "string list \<Rightarrow> cell \<Rightarrow> bool" where
  "contains_nocase names x = (case x of Str s \<Rightarrow> search_any_nocase names s | _ \<Rightarrow> False)"

definition upper_contains :: "string list \<Rightarrow> cell \<Rightarrow> bool" where
  "upper_contains names x = (case x of Str s \<Rightarrow> search_any names (upper s) | _ \<Rightarrow> False)"

text \<open>
  A boolean Series is a list with one entry per row. \<open>mask_or\<close> and \<open>mask_and\<close> are
  \<^verbatim>\<open>|\<close> and \<^verbatim>\<open>&\<close>, \<open>mask_any\<close> is \<^verbatim>\<open>.any()\<close>, and \<open>df_mask df msk\<close> is
  \<^verbatim>\<open>df[mask]\<close>.
\<close>

definition mask_or :: "bool list \<Rightarrow> bool list \<Rightarrow> bool list" where
  "mask_or m s = map2 (\<or>) m s"

definition mask_and :: "bool list \<Rightarrow> bool list \<Rightarrow> bool list" where
  "mask_and m s = map2 (\<and>) m s"

definition mask_any :: "bool list \<Rightarrow> bool" where
  "mask_any m = list_ex (\<lambda>b. b) m"

definition df_mask :: "table \<Rightarrow> bool list \<Rightarrow> table" where
  "df_mask df msk = \<lparr>columns = columns df, rows = map fst (filter snd (zip (rows df) msk))\<rparr>"

text \<open>
  \<open>or_column\<close> is the statement \<^verbatim>\<open>if col in df.columns: mask |= test(df[col])\<close>,
  and \<open>or_columns\<close> the loop of it over a list of columns; the loop stops at the first
  column on which the test raises.
\<close>

definition or_column :: "dtypes \<Rightarrow> table \<Rightarrow> (cell \<Rightarrow> bool) \<Rightarrow> bool list \<Rightarrow> string \<Rightarrow> error + bool list" where
  "or_column dt df p msk col =
     (if col \<in> set (columns df) then
        (case str_test dt df col p of
           Inl e \<Rightarrow> Inl e
         | Inr s \<Rightarrow> Inr (mask_or msk s))
      else Inr msk)"

fun or_columns :: "dtypes \<Rightarrow> table \<Rightarrow> (cell \<Rightarrow> bool) \<Rightarrow> bool list \<Rightarrow> string list \<Rightarrow> error + bool list" where
  "or_columns dt df p msk [] = Inr msk"
| "or_columns dt df p msk (col # cols) =
     (case or_column dt df p msk col of
        Inl e \<Rightarrow> Inl e
      | Inr m \<Rightarrow> or_columns dt df p m cols)"

text \<open>
  The loop over the city columns and, inside it, the loop over the specialty columns,
  which runs only when some row is in a known city.
\<close>

definition specialty_step :: "dtypes \<Rightarrow> table \<Rightarrow> bool list \<Rightarrow> bool list \<Rightarrow> string \<Rightarrow> error + bool list" where
  "specialty_step dt df city_mask msk spec_col =
     (if spec_col \<in> set (columns df) then
        (case str_test dt df spec_col (upper_contains common_specialties) of
           Inl e \<Rightarrow> Inl e
         | Inr specialty_mask \<Rightarrow> Inr (mask_or msk (mask_and city_mask specialty_mask)))
      else Inr msk)"

fun specialty_loop :: "dtypes \<Rightarrow> table \<Rightarrow> bool list \<Rightarrow> bool list \<Rightarrow> string list \<Rightarrow> error + bool list" where
  "specialty_loop dt df city_mask msk [] = Inr msk"
| "specialty_loop dt df city_mask msk (spec_col # cols) =
     (case specialty_step dt df city_mask msk spec_col of
        Inl e \<Rightarrow> Inl e
      | Inr m \<Rightarrow> specialty_loop dt df city_mask m cols)"

definition city_step :: "dtypes \<Rightarrow> table \<Rightarrow> bool list \<Rightarrow> string \<Rightarrow> error + bool list" where
  "city_step dt df msk col =
     (if col \<in> set (columns df) then
        (case str_test dt df col (upper_contains upstate_cities) of
           Inl e \<Rightarrow> Inl e
         | Inr city_mask \<Rightarrow>
             if mask_any city_mask then specialty_loop dt df city_mask msk specialty_cols
             else Inr msk)
      else Inr msk)"

fun city_loop :: "dtypes \<Rightarrow> table \<Rightarrow> bool list \<Rightarrow> string list \<Rightarrow> error + bool list" where
  "city_loop dt df msk [] = Inr msk"
| "city_loop dt df msk (col # cols) =
     (case city_step dt df msk col of
        Inl e \<Rightarrow> Inl e
      | Inr m \<Rightarrow> city_loop dt df m cols)"

definition find_community_care_providers :: "dtypes \<Rightarrow> table \<Rightarrow> error + table" where
  "find_community_care_providers dt df =
     (if df_empty df then Inr df
      else
        let mask0 = replicate (length (rows df)) False in
        case or_columns dt df (contains_nocase community_care_practices) mask0 org_name_cols of
          Inl e \<Rightarrow> Inl e
        | Inr mask1 \<Rightarrow>
            (case or_column dt df (contains_nocase community_care_practices) mask1 grp_pac_id_col of
               Inl e \<Rightarrow> Inl e
             | Inr mask2 \<Rightarrow>
                 (case city_loop dt df mask2 city_cols of
                    Inl e \<Rightarrow> Inl e
                  | Inr mask3 \<Rightarrow>
                      (case or_columns dt df (contains_nocase address_patterns) mask3 address_cols of
                         Inl e \<Rightarrow> Inl e
                       | Inr mask4 \<Rightarrow> Inr (df_mask df mask4)))))"






text \<open>
  The part of \<^verbatim>\<open>analyze_provider_service_data\<close> that selects the population, up to
  the line \<^verbatim>\<open>results = {}\<close>: the state filter (\<open>service_ny_providers\<close>), the strict match
  and, when it finds no row, the broader match: the rows in one of ten cities and, when
  the table has the column \<^verbatim>\<open>Rndrng_Prvdr_Type\<close>, with a primary-care specialty.
\<close>

definition fallback_cities :: "string list" where
  "fallback_cities =
     [''ALBANY'', ''LATHAM'', ''CLIFTON PARK'', ''DELMAR'', ''SARATOGA SPRINGS'',
      ''SCHENECTADY'', ''NISKAYUNA'', ''TROY'', ''EAST GREENBUSH'', ''SLINGERLANDS'']"

definition fallback_specialties :: "string list" where
  "fallback_specialties =
     [''FAMILY PRACTICE'', ''INTERNAL MEDICINE'', ''PEDIATRICS'',
      ''OBSTETRICS/GYNECOLOGY'', ''FAMILY MEDICINE'', ''GENERAL PRACTICE'']"

definition service_ny_providers :: "table \<Rightarrow> table" where
  "service_ny_providers df =
     (if ''Rndrng_Prvdr_State_Abrvtn'' \<in> set (columns df)
      then state_level df ''Rndrng_Prvdr_State_Abrvtn''
      else df)"

definition broader_match :: "dtypes \<Rightarrow> table \<Rightarrow> error + table" where
  "broader_match dt ny_providers =
     (if ''Rndrng_Prvdr_City'' \<in> set (columns ny_providers) then
        (case str_test dt ny_providers ''Rndrng_Prvdr_City'' (upper_contains fallback_cities) of
           Inl e \<Rightarrow> Inl e
         | Inr city_mask \<Rightarrow>
             let upstate_providers = df_mask ny_providers city_mask in
             if ''Rndrng_Prvdr_Type'' \<in> set (columns upstate_providers) then
               (case str_test dt upstate_providers ''Rndrng_Prvdr_Type''
                       (upper_contains fallback_specialties) of
                  Inl e \<Rightarrow> Inl e
                | Inr specialty_mask \<Rightarrow> Inr (df_mask upstate_providers specialty_mask))
             else Inr upstate_providers)
      else Inr (head0 ny_providers))"

definition service_population :: "dtypes \<Rightarrow> table \<Rightarrow> error + table" where
  "service_population dt df =
     (let ny_providers = service_ny_providers df in
      case find_community_care_providers dt ny_providers of
        Inl e \<Rightarrow> Inl e
      | Inr community_care_providers \<Rightarrow>
          if length (rows community_care_providers) = 0
          then broader_match dt ny_providers
          else Inr community_care_providers)"



section \<open>The fetcher: column standardization and aggregates\<close>

definition column_mappings :: "(string \<times> string list) list" where
  "column_mappings =
     [(''provider_id'', [''Rndrng_Prvdr_NPI'', ''NPI'', ''Provider_NPI'']),
      (''provider_last_name'', [''Rndrng_Prvdr_Last_Org_Name'', ''Last_Name'', ''Rndrng_Prvdr_Last_Name'']),
      (''provider_first_name'', [''Rndrng_Prvdr_First_Name'', ''First_Name'']),
      (''provider_middle_initial'', [''Rndrng_Prvdr_MI'', ''MI'', ''Middle_Initial'']),
      (''provider_credentials'', [''Rndrng_Prvdr_Crdntls'', ''Credentials'', ''Crdntls'']),
      (''provider_gender'', [''Rndrng_Prvdr_Gndr'', ''Gender'', ''Gndr'']),
      (''provider_entity_code'', [''Rndrng_Prvdr_Ent_Cd'', ''Entity_Code'', ''Ent_Cd'']),
      (''provider_entity_description'', [''Rndrng_Prvdr_Ent_Desc'', ''Entity_Description'', ''Ent_Desc'']),
      (''provider_type'', [''Rndrng_Prvdr_Type'', ''Provider_Type'', ''Specialty'']),
      (''total_beneficiaries'', [''Tot_Benes'', ''Beneficiaries'', ''Bene_Cnt'']),
      (''total_services'', [''Tot_Srvcs'', ''Services'', ''Srvc_Cnt'']),
      (''total_bene_day_services'', [''Tot_Bene_Day_Srvcs'', ''Bene_Day_Srvcs'']),
      (''avg_submitted_charge'', [''Avg_Sbmtd_Chrg'', ''Submitted_Charge'', ''Sbmtd_Chrg'']),
      (''avg_medicare_allowed_amount'', [''Avg_Mdcr_Alowd_Amt'', ''Medicare_Allowed'', ''Alowd_Amt'']),
      (''avg_medicare_payment_amount'', [''Avg_Mdcr_Pymt_Amt'', ''Medicare_Payment'', ''Pymt_Amt'']),
      (''avg_medicare_standardized_amount'', [''Avg_Mdcr_Stdzd_Amt'', ''Medicare_Standardized'', ''Stdzd_Amt''])]"

text \<open>
  The loop over \<^verbatim>\<open>column_mappings.items()\<close>: its state is the list
  \<^verbatim>\<open>available_cols\<close> and the dictionary \<^verbatim>\<open>col_mapping\<close>; for each canonical
  name the first alias that is a column of the table is appended and mapped.
\<close>

definition resolve_step ::
  "string list \<Rightarrow> string list \<times> (string \<rightharpoonup> string) \<Rightarrow> string \<times> string list
     \<Rightarrow> string list \<times> (string \<rightharpoonup> string)" where
  "resolve_step cols st entry =
     (case first_present (snd entry) cols of
        Some col \<Rightarrow> (fst st @ [col], (snd st)(col \<mapsto> fst entry))
      | None \<Rightarrow> st)"

definition resolve_columns :: "string list \<Rightarrow> string list \<times> (string \<rightharpoonup> string)" where
  "resolve_columns cols = foldl (resolve_step cols) ([], Map.empty) column_mappings"

text \<open>
  \<open>resolved cols entries\<close> lists, for the canonical fields that have an alias among the
  columns, the first such alias with the canonical name.
\<close>

definition resolved :: "string list \<Rightarrow> (string \<times> string list) list \<Rightarrow> (string \<times> string) list" where
  "resolved cols entries =
     concat (map (\<lambda>entry. case first_present (snd entry) cols of
                              Some col \<Rightarrow> [(col, fst entry)] | None \<Rightarrow> []) entries)"

text \<open>\<open>select_columns df cs\<close> is \<^verbatim>\<open>df[cs]\<close>, \<open>rename_columns df m\<close> is \<^verbatim>\<open>df.rename(columns=m)\<close>.\<close>

definition select_columns :: "table \<Rightarrow> string list \<Rightarrow> table" where
  "select_columns df cs =
     \<lparr>columns = cs, rows = map (\<lambda>r. map (cell_at (columns df) r) cs) (rows df)\<rparr>"

definition rename_columns :: "table \<Rightarrow> (string \<rightharpoonup> string) \<Rightarrow> table" where
  "rename_columns df m =
     \<lparr>columns = map (\<lambda>c. case m c of Some n \<Rightarrow> n | None \<Rightarrow> c) (columns df), rows = rows df\<rparr>"

definition analyze_provider_metrics :: "table \<Rightarrow> table" where
  "analyze_provider_metrics df =
     (if df_empty df then empty_df
      else
        let available_cols = fst (resolve_columns (columns df));
            col_mapping = snd (resolve_columns (columns df))
        in if available_cols = [] then head0 df
           else rename_columns (select_columns df available_cols) col_mapping)"

text \<open>
  What the specification says of one canonical field: \<open>bound_alias cols aliases\<close> is the
  first alias of the field's list that is a column. \<open>canonical_columns cols\<close> are the
  canonical fields that have one.
\<close>

definition canonical_columns :: "string list \<Rightarrow> string list" where
  "canonical_columns cols =
     map fst (filter (\<lambda>entry. first_present (snd entry) cols \<noteq> None) column_mappings)"

text \<open>
  \<open>uniq\<close> keeps the first occurrence of every value, in order; \<open>value_counts\<close> counts
  the values that are not missing, the most frequent first; \<open>group_keys\<close> are the keys of
  a \<^verbatim>\<open>groupby\<close>, sorted (numbers before texts), without the missing value.
\<close>

definition uniq :: "'a list \<Rightarrow> 'a list" where
  "uniq xs = rev (remdups (rev xs))"

definition value_counts :: "cell list \<Rightarrow> (cell \<times> nat) list" where
  "value_counts xs =
     sort_key (\<lambda>vn. - int (snd vn))
       (map (\<lambda>v. (v, count_list xs v)) (uniq (filter (\<lambda>x. x \<noteq> NaN) xs)))"

definition cell_key :: "cell \<Rightarrow> nat \<times> rat \<times> string" where
  "cell_key x =
     (case x of NegInf \<Rightarrow> (0, 0, []) | Num q \<Rightarrow> (1, q, []) | PosInf \<Rightarrow> (2, 0, [])
      | Str s \<Rightarrow> (3, 0, s) | NaN \<Rightarrow> (4, 0, []))"

definition group_keys :: "cell list \<Rightarrow> cell list" where
  "group_keys xs = sort_key cell_key (remdups (filter (\<lambda>x. x \<noteq> NaN) xs))"

definition get_specialty_distribution :: "table \<Rightarrow> table" where
  "get_specialty_distribution providers_df =
     (if ''provider_type'' \<notin> set (columns providers_df) \<or> df_empty providers_df then empty_df
      else
        let specialty_counts = value_counts (col_values providers_df ''provider_type'')
        in \<lparr>columns = [''Specialty'', ''Count''],
            rows = map (\<lambda>vn. [fst vn, Num (of_nat (snd vn))]) specialty_counts\<rparr>)"

text \<open>
  The same aggregate on the provider-service table counts the distinct provider
  identifiers of each specialty; the lookup of \<^verbatim>\<open>'Rndrng_NPI'\<close> in the grouped table
  raises \<^verbatim>\<open>KeyError\<close> when the column is missing.
\<close>

definition nunique :: "cell list \<Rightarrow> nat" where
  "nunique xs = length (remdups (filter (\<lambda>x. x \<noteq> NaN) xs))"

definition get_specialty_distribution_from_services :: "table \<Rightarrow> error + table" where
  "get_specialty_distribution_from_services df =
     (if df_empty df \<or> ''Rndrng_Prvdr_Type'' \<notin> set (columns df) then Inr empty_df
      else if ''Rndrng_NPI'' \<notin> set (columns df) then Inl (KeyError ''Rndrng_NPI'')
      else
        let specialty_counts =
              map (\<lambda>k. (k, nunique (col_values
                     (select_rows (\<lambda>r. cell_at (columns df) r ''Rndrng_Prvdr_Type'' = k) df)
                     ''Rndrng_NPI'')))
                (group_keys (col_values df ''Rndrng_Prvdr_Type''))
        in Inr \<lparr>columns = [''Specialty'', ''Provider Count''],
                rows = map (\<lambda>kn. [fst kn, Num (of_nat (snd kn))])
                         (sort_key (\<lambda>kn. - int (snd kn)) specialty_counts)\<rparr>)"

section \<open>Numbers, sorting and grouping\<close>

text \<open>
  \<open>float_div\<close> is the division of two float cells: a division by zero gives an infinity
  or, for 0/0, the missing value, and never raises. \<open>col_mean\<close> skips what is not a
  number, as pandas skips missing values; the mean of no number is missing.
\<close>

definition float_div :: "cell \<Rightarrow> cell \<Rightarrow> cell" where
  "float_div a b =
     (case (a, b) of
        (Num x, Num y) \<Rightarrow>
          if y \<noteq> 0 then Num (x / y) else if x = 0 then NaN else if 0 < x then PosInf else NegInf
      | _ \<Rightarrow> NaN)"

definition float_sub :: "cell \<Rightarrow> cell \<Rightarrow> cell" where
  "float_sub a b = (case (a, b) of (Num x, Num y) \<Rightarrow> Num (x - y) | _ \<Rightarrow> NaN)"

definition times100 :: "cell \<Rightarrow> cell" where
  "times100 a = (case a of Num x \<Rightarrow> Num (x * 100) | Str s \<Rightarrow> NaN | _ \<Rightarrow> a)"

definition numbers :: "cell list \<Rightarrow> rat list" where
  "numbers xs = concat (map (\<lambda>x. case x of Num q \<Rightarrow> [q] | _ \<Rightarrow> []) xs)"

definition col_mean :: "cell list \<Rightarrow> cell" where
  "col_mean xs =
     (if numbers xs = [] then NaN else Num (sum_list (numbers xs) / of_nat (length (numbers xs))))"

text \<open>
  \<open>sort_desc col df\<close> is \<^verbatim>\<open>df.sort_values(col, ascending=False)\<close>: the largest number
  first, rows without a number last. Rows with equal keys stay in their order here; pandas
  promises that order for \<^verbatim>\<open>nlargest\<close> only, and no property below depends on the
  order of rows with equal keys. \<open>nlargest\<close> and \<open>head\<close> take the first rows.
\<close>

definition desc_key :: "cell \<Rightarrow> nat \<times> rat" where
  "desc_key x =
     (case x of PosInf \<Rightarrow> (0, 0) | Num q \<Rightarrow> (1, - q) | NegInf \<Rightarrow> (2, 0) | _ \<Rightarrow> (3, 0))"

definition sort_desc :: "string \<Rightarrow> table \<Rightarrow> table" where
  "sort_desc col df =
     \<lparr>columns = columns df, rows = sort_key (\<lambda>r. desc_key (cell_at (columns df) r col)) (rows df)\<rparr>"

definition head :: "nat \<Rightarrow> table \<Rightarrow> table" where
  "head n df = \<lparr>columns = columns df, rows = take n (rows df)\<rparr>"

definition nlargest :: "nat \<Rightarrow> string \<Rightarrow> table \<Rightarrow> table" where
  "nlargest n col df = head n (sort_desc col df)"

section \<open>Machine arithmetic and grouping\<close>

text \<open>
  The sum of a column depends on its dtype. On \<^verbatim>\<open>int64\<close> it is computed in 64-bit
  two's complement and wraps around without an error (\<open>wrap64\<close>). On \<^verbatim>\<open>float64\<close> it
  is a floating-point sum, and so are the mean and the arithmetic on columns of means: these
  operations of numpy are the parameters \<open>floats\<close>, applied to the cells that are not
  missing. On \<^verbatim>\<open>object\<close> the sum of texts is their concatenation.
\<close>

definition wrap64 :: "int \<Rightarrow> int" where
  "wrap64 n = (n + 2 ^ 63) mod 2 ^ 64 - 2 ^ 63"

record floats =
  fsum :: "cell list \<Rightarrow> cell"
  fmean :: "cell list \<Rightarrow> cell"
  fsub :: "cell \<Rightarrow> cell \<Rightarrow> cell"
  fdiv :: "cell \<Rightarrow> cell \<Rightarrow> cell"
  fmul :: "cell \<Rightarrow> cell \<Rightarrow> cell"

definition dropna :: "cell list \<Rightarrow> cell list" where
  "dropna xs = filter (\<lambda>x. x \<noteq> NaN) xs"

definition texts :: "cell list \<Rightarrow> string list" where
  "texts xs = concat (map (\<lambda>x. case x of Str s \<Rightarrow> [s] | _ \<Rightarrow> []) xs)"

definition agg_sum :: "floats \<Rightarrow> dtype \<Rightarrow> cell list \<Rightarrow> cell" where
  "agg_sum fl d xs =
     (case d of
        Int64 \<Rightarrow> Num (of_int (wrap64 (sum_list (map floor (numbers xs)))))
      | Float64 \<Rightarrow> fsum fl (dropna xs)
      | Object \<Rightarrow> Str (concat (texts xs)))"

definition agg_mean :: "floats \<Rightarrow> cell list \<Rightarrow> cell" where
  "agg_mean fl xs = (if dropna xs = [] then NaN else fmean fl (dropna xs))"

text \<open>
  A \<^verbatim>\<open>groupby\<close> on a list of columns: \<open>groups df by\<close> are its keys, the value
  combinations without a missing value, sorted; \<open>group_rows df by k\<close> are the rows of
  one key.
\<close>

definition row_key :: "table \<Rightarrow> string list \<Rightarrow> cell list \<Rightarrow> cell list" where
  "row_key df by r = map (cell_at (columns df) r) by"

definition groups :: "table \<Rightarrow> string list \<Rightarrow> cell list list" where
  "groups df by =
     sort_key (map cell_key) (remdups (filter (\<lambda>k. NaN \<notin> set k) (map (row_key df by) (rows df))))"

definition group_rows :: "table \<Rightarrow> string list \<Rightarrow> cell list \<Rightarrow> table" where
  "group_rows df by k = select_rows (\<lambda>r. row_key df by r = k) df"

section \<open>The fetcher: payment comparison\<close>

text \<open>
  \<open>group_sum fl d df by col\<close> is \<^verbatim>\<open>df.groupby(by)[col].sum()\<close> for a column of the
  dtype \<open>d\<close>, a series of sums indexed by the sorted keys, and \<open>series_nlargest n\<close> is
  \<^verbatim>\<open>.nlargest(n)\<close>: the \<open>n\<close> entries with the largest values, the largest first, of
  equal values the earlier entry first; it raises \<^verbatim>\<open>TypeError\<close> on a series of the
  dtype \<^verbatim>\<open>object\<close>.
\<close>

definition group_sum :: "floats \<Rightarrow> dtype \<Rightarrow> table \<Rightarrow> string \<Rightarrow> string \<Rightarrow> (cell \<times> cell) list" where
  "group_sum fl d df by col =
     map (\<lambda>k. (k, agg_sum fl d (col_values (select_rows (\<lambda>r. cell_at (columns df) r by = k) df) col)))
       (group_keys (col_values df by))"

definition series_nlargest :: "nat \<Rightarrow> (cell \<times> cell) list \<Rightarrow> (cell \<times> cell) list" where
  "series_nlargest n ser = take n (sort_key (\<lambda>kv. desc_key (snd kv)) ser)"

definition required_cols :: "string list" where
  "required_cols = [''HCPCS_Cd'', ''Avg_Mdcr_Alowd_Amt'', ''Avg_Mdcr_Pymt_Amt'']"

definition top_services :: "floats \<Rightarrow> dtypes \<Rightarrow> table \<Rightarrow> error + cell list" where
  "top_services fl dt community_care_df =
     (if ''Tot_Srvcs'' \<in> set (columns community_care_df) then
        if dt ''Tot_Srvcs'' = Object then Inl TypeError
        else Inr (map fst (series_nlargest 20
               (group_sum fl (dt ''Tot_Srvcs'') community_care_df ''HCPCS_Cd'' ''Tot_Srvcs'')))
      else Inr (map fst (take 20 (sort_key (\<lambda>vn. - int (snd vn))
             (value_counts (col_values community_care_df ''HCPCS_Cd''))))))"

text \<open>
  \<open>cc_payments\<close> is the aggregate of the population's rows with a top service, one row
  per code and description: code, description, mean allowed amount, mean payment, summed
  volume. \<open>ny_payments\<close> is the aggregate of the state's rows, one row per code: code,
  mean allowed amount, mean payment.
\<close>

definition cc_payments :: "floats \<Rightarrow> dtypes \<Rightarrow> table \<Rightarrow> cell list \<Rightarrow> cell list list" where
  "cc_payments fl dt community_care_df top_codes =
     (let sel = select_rows (\<lambda>r. cell_at (columns community_care_df) r ''HCPCS_Cd'' \<in> set top_codes)
                  community_care_df
      in map (\<lambda>k.
                let g = group_rows sel [''HCPCS_Cd'', ''HCPCS_Desc''] k
                in k @ [agg_mean fl (col_values g ''Avg_Mdcr_Alowd_Amt''),
                        agg_mean fl (col_values g ''Avg_Mdcr_Pymt_Amt''),
                        agg_sum fl (dt ''Tot_Srvcs'') (col_values g ''Tot_Srvcs'')])
           (groups sel [''HCPCS_Cd'', ''HCPCS_Desc'']))"

definition ny_payments :: "floats \<Rightarrow> table \<Rightarrow> cell list \<Rightarrow> cell list list" where
  "ny_payments fl ny_providers_df top_codes =
     (let sel = select_rows (\<lambda>r. cell_at (columns ny_providers_df) r ''HCPCS_Cd'' \<in> set top_codes)
                  ny_providers_df
      in map (\<lambda>k.
                let g = group_rows sel [''HCPCS_Cd''] k
                in k @ [agg_mean fl (col_values g ''Avg_Mdcr_Alowd_Amt''),
                        agg_mean fl (col_values g ''Avg_Mdcr_Pymt_Amt'')])
           (groups sel [''HCPCS_Cd'']))"

text \<open>
  One row of the merged table with its four computed columns, for a row of \<open>cc_payments\<close>
  and a row of \<open>ny_payments\<close> with the same code; \<open>merge_payments\<close> is the inner merge.
\<close>

fun comparison_row :: "floats \<Rightarrow> cell list \<Rightarrow> cell list \<Rightarrow> cell list" where
  "comparison_row fl [code, desc, allowed_cc, payment_cc, tot] [code_ny, allowed_ny, payment_ny] =
     [code, desc, allowed_cc, payment_cc, tot, allowed_ny, payment_ny,
      fsub fl allowed_cc allowed_ny,
      fmul fl (fdiv fl (fsub fl allowed_cc allowed_ny) allowed_ny) (Num 100),
      fsub fl payment_cc payment_ny,
      fmul fl (fdiv fl (fsub fl payment_cc payment_ny) payment_ny) (Num 100)]"
| "comparison_row fl l r = l @ tl r"

definition merge_payments :: "floats \<Rightarrow> cell list list \<Rightarrow> cell list list \<Rightarrow> cell list list" where
  "merge_payments fl ccs nys =
     concat (map (\<lambda>l. map (comparison_row fl l) (filter (\<lambda>r. hd r = hd l) nys)) ccs)"

definition comparison_columns :: "string list" where
  "comparison_columns =
     [''HCPCS Code'', ''Description'', ''CC Allowed Amt'', ''CC Payment Amt'', ''Total Services'',
      ''NY Allowed Amt'', ''NY Payment Amt'', ''Allowed Difference'', ''Allowed % Difference'',
      ''Payment Difference'', ''Payment % Difference'']"

text \<open>
  The comparison raises \<^verbatim>\<open>KeyError\<close> for a column that a \<^verbatim>\<open>groupby\<close> or an
  aggregate names and the table lacks, \<^verbatim>\<open>TypeError\<close> for the mean of a column of the
  dtype \<^verbatim>\<open>object\<close>, and \<^verbatim>\<open>ValueError\<close> for a merge of a code column of texts
  with one of numbers.
\<close>

definition get_payment_comparison ::
  "floats \<Rightarrow> dtypes \<Rightarrow> table \<Rightarrow> dtypes \<Rightarrow> table \<Rightarrow> error + table" where
  "get_payment_comparison fl dt_cc community_care_df dt_ny ny_providers_df =
     (if df_empty community_care_df \<or> df_empty ny_providers_df then Inr empty_df
      else if \<not> list_all (\<lambda>col. col \<in> set (columns community_care_df)) required_cols
      then Inr empty_df
      else
        (case top_services fl dt_cc community_care_df of
           Inl e \<Rightarrow> Inl e
         | Inr top_codes \<Rightarrow>
             if ''HCPCS_Desc'' \<notin> set (columns community_care_df) then Inl (KeyError ''HCPCS_Desc'')
             else if ''Tot_Srvcs'' \<notin> set (columns community_care_df) then Inl (KeyError ''Tot_Srvcs'')
             else if dt_cc ''Avg_Mdcr_Alowd_Amt'' = Object \<or> dt_cc ''Avg_Mdcr_Pymt_Amt'' = Object
             then Inl TypeError
             else
               (case first_missing required_cols ny_providers_df of
                  Some col \<Rightarrow> Inl (KeyError col)
                | None \<Rightarrow>
                    if dt_ny ''Avg_Mdcr_Alowd_Amt'' = Object \<or> dt_ny ''Avg_Mdcr_Pymt_Amt'' = Object
                    then Inl TypeError
                    else if (dt_cc ''HCPCS_Cd'' = Object) \<noteq> (dt_ny ''HCPCS_Cd'' = Object)
                    then Inl (ValueError ''HCPCS_Cd'')
                    else
                      let payment_comparison =
                            \<lparr>columns = comparison_columns,
                             rows = merge_payments fl
                                      (cc_payments fl dt_cc community_care_df top_codes)
                                      (ny_payments fl ny_providers_df top_codes)\<rparr>
                      in Inr (sort_desc ''Total Services'' payment_comparison))))"

text \<open>
  The words of the specification: the distinct service codes of a table, the summed
  volume of one code as the code computes it (\<open>service_volume\<close>) and as the exact sum
  (\<open>exact_volume\<close>). \<open>ranks_before a b\<close>: the value \<open>a\<close> is larger than \<open>b\<close> in the
  descending order of \<^verbatim>\<open>nlargest\<close>.
\<close>

definition service_codes :: "table \<Rightarrow> cell list" where
  "service_codes df = group_keys (col_values df ''HCPCS_Cd'')"

definition service_volume :: "floats \<Rightarrow> dtypes \<Rightarrow> table \<Rightarrow> cell \<Rightarrow> cell" where
  "service_volume fl dt df code =
     agg_sum fl (dt ''Tot_Srvcs'')
       (col_values (select_rows (\<lambda>r. cell_at (columns df) r ''HCPCS_Cd'' = code) df) ''Tot_Srvcs'')"

definition exact_volume :: "table \<Rightarrow> cell \<Rightarrow> rat" where
  "exact_volume df code =
     sum_list (numbers
       (col_values (select_rows (\<lambda>r. cell_at (columns df) r ''HCPCS_Cd'' = code) df) ''Tot_Srvcs''))"

definition ranks_before :: "cell \<Rightarrow> cell \<Rightarrow> bool" where
  "ranks_before a b = (desc_key a < desc_key b)"

text \<open>\<open>output_codes r\<close> are the service codes of a comparison that was returned.\<close>

definition output_codes :: "error + table \<Rightarrow> cell list" where
  "output_codes r = (case r of Inr out \<Rightarrow> col_values out ''HCPCS Code'' | Inl e \<Rightarrow> [])"

section \<open>The fetcher: the other aggregates\<close>

text \<open>
  A value of the results dictionary is a DataFrame or something else (the dictionary of
  payment statistics). The dictionary is the list of its items in insertion order.
\<close>

datatype result = Frame table | Other

text \<open>
  \<^verbatim>\<open>get_payment_statistics\<close> returns a dictionary of statistics, which is no DataFrame
  and is never written; the model keeps of it that it is returned, or that the mean of a
  column with a text raises \<^verbatim>\<open>TypeError\<close>.
\<close>

definition payment_cols :: "string list" where
  "payment_cols =
     [''avg_submitted_charge'', ''avg_medicare_allowed_amount'',
      ''avg_medicare_payment_amount'', ''avg_medicare_standardized_amount'']"

definition get_payment_statistics :: "dtypes \<Rightarrow> table \<Rightarrow> error + result" where
  "get_payment_statistics dt providers_df =
     (if df_empty providers_df then Inr Other
      else if list_ex (\<lambda>col. col \<in> set (columns providers_df) \<and> dt col = Object \<and>
                 list_ex is_text (col_values providers_df col)) payment_cols
      then Inl TypeError
      else Inr Other)"

text \<open>
  The dtypes of the table that \<open>analyze_provider_metrics\<close> returns: a canonical column
  has the dtype of the alias it renames.
\<close>

definition metrics_dtypes :: "dtypes \<Rightarrow> table \<Rightarrow> dtypes" where
  "metrics_dtypes dt df col =
     (case map_of (map (\<lambda>p. (snd p, fst p)) (resolved (columns df) column_mappings)) col of
        Some alias \<Rightarrow> dt alias
      | None \<Rightarrow> dt col)"

definition volume_renames :: "(string \<times> string) list" where
  "volume_renames =
     [(''provider_last_name'', ''Provider Last/Org Name''),
      (''provider_first_name'', ''Provider First Name''),
      (''provider_type'', ''Specialty''),
      (''total_services'', ''Total Services'')]"

definition get_service_volume_by_provider :: "floats \<Rightarrow> dtypes \<Rightarrow> table \<Rightarrow> table" where
  "get_service_volume_by_provider fl dt providers_df =
     (if ''total_services'' \<notin> set (columns providers_df) \<or> df_empty providers_df then empty_df
      else if ''provider_last_name'' \<in> set (columns providers_df) then
        let group_cols =
              [''provider_last_name''] @
              (if ''provider_first_name'' \<in> set (columns providers_df) then [''provider_first_name''] else []) @
              (if ''provider_type'' \<in> set (columns providers_df) then [''provider_type''] else []);
            volume_by_provider =
              \<lparr>columns = group_cols @ [''total_services''],
               rows = map (\<lambda>k. k @ [agg_sum fl (dt ''total_services'')
                                      (col_values (group_rows providers_df group_cols k) ''total_services'')])
                        (groups providers_df group_cols)\<rparr>
        in sort_desc ''Total Services'' (rename_columns volume_by_provider (map_of volume_renames))
      else empty_df)"

text \<open>The aggregates of the provider-service table.\<close>

definition get_top_services :: "floats \<Rightarrow> dtypes \<Rightarrow> table \<Rightarrow> error + table" where
  "get_top_services fl dt df =
     (if df_empty df \<or> ''HCPCS_Cd'' \<notin> set (columns df) then Inr empty_df
      else if ''Tot_Srvcs'' \<in> set (columns df) then
        if ''HCPCS_Desc'' \<notin> set (columns df) then Inl (KeyError ''HCPCS_Desc'')
        else
          let service_counts =
                \<lparr>columns = [''HCPCS_Cd'', ''HCPCS_Desc'', ''Tot_Srvcs''],
                 rows = map (\<lambda>k. k @ [agg_sum fl (dt ''Tot_Srvcs'')
                                        (col_values (group_rows df [''HCPCS_Cd'', ''HCPCS_Desc''] k) ''Tot_Srvcs'')])
                          (groups df [''HCPCS_Cd'', ''HCPCS_Desc''])\<rparr>
          in Inr \<lparr>columns = [''HCPCS Code'', ''HCPCS Description'', ''Total Services''],
                  rows = rows (sort_desc ''Tot_Srvcs'' service_counts)\<rparr>
      else Inr empty_df)"

datatype agg = Sum | Mean

definition provider_group_cols :: "string list" where
  "provider_group_cols =
     [''Rndrng_NPI'', ''Rndrng_Prvdr_Last_Org_Name'', ''Rndrng_Prvdr_First_Name'', ''Rndrng_Prvdr_Type'']"

definition agg_metrics :: "(string \<times> agg) list" where
  "agg_metrics =
     [(''Tot_Srvcs'', Sum), (''Tot_Benes'', Sum), (''Avg_Mdcr_Alowd_Amt'', Mean),
      (''Avg_Mdcr_Pymt_Amt'', Mean)]"

definition aggregate :: "floats \<Rightarrow> dtypes \<Rightarrow> table \<Rightarrow> string \<times> agg \<Rightarrow> cell" where
  "aggregate fl dt g m =
     (case snd m of
        Sum \<Rightarrow> agg_sum fl (dt (fst m)) (col_values g (fst m))
      | Mean \<Rightarrow> agg_mean fl (col_values g (fst m)))"

definition metric_renames :: "(string \<times> string) list" where
  "metric_renames =
     [(''Rndrng_NPI'', ''NPI''),
      (''Rndrng_Prvdr_Last_Org_Name'', ''Last Name''),
      (''Rndrng_Prvdr_First_Name'', ''First Name''),
      (''Rndrng_Prvdr_Type'', ''Specialty''),
      (''Tot_Srvcs'', ''Total Services''),
      (''Tot_Benes'', ''Total Beneficiaries''),
      (''Avg_Mdcr_Alowd_Amt'', ''Avg Allowed Amount''),
      (''Avg_Mdcr_Pymt_Amt'', ''Avg Payment Amount''),
      (''Unique_Services'', ''Unique Services'')]"

text \<open>
  \<open>merge_on_first l r\<close> is the merge of two tables on their first column: every row of
  the left table with every row of the right table that has the same first cell, the
  right row without that cell.
\<close>

definition merge_on_first :: "cell list list \<Rightarrow> cell list list \<Rightarrow> cell list list" where
  "merge_on_first ls rs =
     concat (map (\<lambda>l. map (\<lambda>r. l @ tl r) (filter (\<lambda>r. hd r = hd l) rs)) ls)"

definition unique_services :: "table \<Rightarrow> string list \<Rightarrow> cell list \<Rightarrow> cell" where
  "unique_services df by k = Num (of_nat (nunique (col_values (group_rows df by k) ''HCPCS_Cd'')))"

definition get_provider_metrics :: "floats \<Rightarrow> dtypes \<Rightarrow> table \<Rightarrow> error + table" where
  "get_provider_metrics fl dt df =
     (if df_empty df then Inr empty_df
      else
        let available_cols = filter (\<lambda>col. col \<in> set (columns df)) provider_group_cols;
            metrics = filter (\<lambda>m. fst m \<in> set (columns df)) agg_metrics
        in
        if available_cols = [] then Inr empty_df
        else if metrics = [] then
          if ''HCPCS_Cd'' \<notin> set (columns df) then Inl (KeyError ''HCPCS_Cd'')
          else Inr \<lparr>columns = available_cols @ [''Unique_Services''],
                    rows = map (\<lambda>k. k @ [unique_services df available_cols k])
                             (groups df available_cols)\<rparr>
        else if list_ex (\<lambda>m. snd m = Mean \<and> dt (fst m) = Object) metrics then Inl TypeError
        else
          let provider_metrics =
                \<lparr>columns = available_cols @ map fst metrics,
                 rows = map (\<lambda>k. k @ map (aggregate fl dt (group_rows df available_cols k)) metrics)
                          (groups df available_cols)\<rparr>
          in
          if ''HCPCS_Cd'' \<in> set (columns df) then
            if ''Rndrng_NPI'' \<notin> set available_cols then Inl (KeyError ''Rndrng_NPI'')
            else
              let unique = map (\<lambda>k. [hd k, unique_services df available_cols k])
                             (groups df available_cols);
                  merged = \<lparr>columns = columns provider_metrics @ [''Unique_Services''],
                            rows = merge_on_first (rows provider_metrics) unique\<rparr>
              in Inr (rename_columns merged (map_of metric_renames))
          else Inr (rename_columns provider_metrics (map_of metric_renames)))"

definition quality_words :: "string list" where
  "quality_words = [''qual'', ''outcome'', ''complication'', ''readmission'']"

definition name_cols :: "string list" where
  "name_cols = [''Rndrng_Prvdr_Last_Org_Name'', ''Rndrng_Prvdr_First_Name'', ''Rndrng_Prvdr_Type'']"

text \<open>
  \<open>with_provider_names\<close> is the merge with the provider names, the distinct rows of the
  identifier and the name columns, when the table has a name column.
\<close>

definition with_provider_names :: "table \<Rightarrow> table \<Rightarrow> table" where
  "with_provider_names df metrics =
     (let available_name_cols = filter (\<lambda>col. col \<in> set (columns df)) name_cols in
      if available_name_cols \<noteq> [] then
        let provider_names = uniq (rows (select_columns df (''Rndrng_NPI'' # available_name_cols)))
        in \<lparr>columns = columns metrics @ available_name_cols,
            rows = merge_on_first (rows metrics) provider_names\<rparr>
      else metrics)"

definition get_quality_metrics :: "floats \<Rightarrow> dtypes \<Rightarrow> table \<Rightarrow> error + table" where
  "get_quality_metrics fl dt df =
     (if df_empty df then Inr empty_df
      else
        let quality_cols =
              filter (\<lambda>col. list_ex (\<lambda>q. str_in q (lower col)) quality_words) (columns df)
        in
        if quality_cols = [] \<and> ''Rndrng_NPI'' \<in> set (columns df) \<and> ''HCPCS_Cd'' \<in> set (columns df) then
          let service_diversity =
                \<lparr>columns = [''NPI'', ''Service Diversity''],
                 rows = map (\<lambda>k. k @ [unique_services df [''Rndrng_NPI''] k])
                          (groups df [''Rndrng_NPI''])\<rparr>
          in Inr (with_provider_names df service_diversity)
        else if ''Rndrng_NPI'' \<notin> set (columns df) then Inl (KeyError ''Rndrng_NPI'')
        else if list_ex (\<lambda>col. dt col = Object) quality_cols then Inl TypeError
        else
          let quality_metrics =
                \<lparr>columns = ''Rndrng_NPI'' # quality_cols,
                 rows = map (\<lambda>k. k @ map (\<lambda>col. agg_mean fl
                                     (col_values (group_rows df [''Rndrng_NPI''] k) col)) quality_cols)
                          (groups df [''Rndrng_NPI''])\<rparr>
          in Inr (with_provider_names df quality_metrics))"

text \<open>
  \<^verbatim>\<open>analyze_provider_service_data\<close>: the population (\<open>service_population\<close>) and its
  five aggregates, in the order in which the source computes them.
\<close>

definition analyze_provider_service_data ::
  "floats \<Rightarrow> dtypes \<Rightarrow> table \<Rightarrow> error + (string \<times> result) list" where
  "analyze_provider_service_data fl dt df =
     (let ny_providers = service_ny_providers df in
      case service_population dt df of
        Inl e \<Rightarrow> Inl e
      | Inr community_care_providers \<Rightarrow>
      (case get_top_services fl dt community_care_providers of
        Inl e \<Rightarrow> Inl e
      | Inr top_svcs \<Rightarrow>
      (case get_specialty_distribution_from_services community_care_providers of
        Inl e \<Rightarrow> Inl e
      | Inr specialty \<Rightarrow>
      (case get_payment_comparison fl dt community_care_providers dt ny_providers of
        Inl e \<Rightarrow> Inl e
      | Inr comparison \<Rightarrow>
      (case get_provider_metrics fl dt community_care_providers of
        Inl e \<Rightarrow> Inl e
      | Inr metrics \<Rightarrow>
      (case get_quality_metrics fl dt community_care_providers of
        Inl e \<Rightarrow> Inl e
      | Inr quality \<Rightarrow>
          Inr [(''top_services'', Frame top_svcs),
               (''specialty_distribution'', Frame specialty),
               (''payment_comparison'', Frame comparison),
               (''provider_metrics'', Frame metrics),
               (''quality_metrics'', Frame quality)]))))))"

section \<open>The fetcher: files, download and saved results\<close>

text \<open>
  The state the fetcher works on: the files on disk with their bytes, the directories,
  the URLs requested over the network and the paths written, both in order. Paths are
  relative names; \<open>path_join\<close> is the \<^verbatim>\<open>/\<close> of \<^verbatim>\<open>pathlib\<close> on them and \<open>dirname\<close>
  the parent of a path, empty for a name in the working directory, which exists.
\<close>

record world =
  files :: "string \<rightharpoonup> string"
  dirs :: "string list"
  fetched :: "string list"
  written :: "string list"

definition path_join :: "string \<Rightarrow> string \<Rightarrow> string" where
  "path_join d f = d @ ''/'' @ f"

definition dirname :: "string \<Rightarrow> string" where
  "dirname p = rev (drop 1 (dropWhile (\<lambda>c. c \<noteq> CHR ''/'') (rev p)))"

definition dir_exists :: "world \<Rightarrow> string \<Rightarrow> bool" where
  "dir_exists w d = (d = [] \<or> d \<in> set (dirs w))"

definition path_exists :: "world \<Rightarrow> string \<Rightarrow> bool" where
  "path_exists w p = (files w p \<noteq> None \<or> p \<in> set (dirs w))"

text \<open>
  \<open>open_write\<close> is \<^verbatim>\<open>open(path, 'wb')\<close> followed by the writes: it raises when the
  path is a directory or its parent directory does not exist. \<open>write_csv\<close> is the write
  of \<^verbatim>\<open>to_csv\<close>, which checks the parent directory first. \<open>read_bytes\<close> is the read
  of \<^verbatim>\<open>read_csv\<close>, and \<open>mkdir\<close> is \<^verbatim>\<open>mkdir(exist_ok=True)\<close>.
\<close>

definition open_write :: "world \<Rightarrow> string \<Rightarrow> string \<Rightarrow> error + world" where
  "open_write w p bytes =
     (if p \<in> set (dirs w) then Inl (IsADirectoryError p)
      else if \<not> dir_exists w (dirname p) then Inl (FileNotFoundError p)
      else Inr (w\<lparr>files := (files w)(p \<mapsto> bytes), written := written w @ [p]\<rparr>))"

definition write_csv :: "world \<Rightarrow> string \<Rightarrow> string \<Rightarrow> error + world" where
  "write_csv w p bytes =
     (if \<not> dir_exists w (dirname p) then Inl (OSError (dirname p)) else open_write w p bytes)"

definition read_bytes :: "world \<Rightarrow> string \<Rightarrow> error + string" where
  "read_bytes w p =
     (case files w p of
        Some bytes \<Rightarrow> Inr bytes
      | None \<Rightarrow> if p \<in> set (dirs w) then Inl (IsADirectoryError p) else Inl (FileNotFoundError p))"

definition mkdir :: "world \<Rightarrow> string \<Rightarrow> error + world" where
  "mkdir w d =
     (if d \<in> set (dirs w) then Inr w
      else if files w d \<noteq> None then Inl (FileExistsError d)
      else if \<not> dir_exists w (dirname d) then Inl (FileNotFoundError d)
      else Inr (w\<lparr>dirs := dirs w @ [d]\<rparr>))"

text \<open>\<open>can_write w p\<close>: a write of the path \<open>p\<close> succeeds in the state \<open>w\<close>.\<close>

definition can_write :: "world \<Rightarrow> string \<Rightarrow> bool" where
  "can_write w p = (dir_exists w (dirname p) \<and> p \<notin> set (dirs w))"

text \<open>
  \<open>download_file net base_dir w url local_filename\<close>: \<open>net url\<close> is the body that
  \<^verbatim>\<open>requests.get\<close> receives, or the error of \<^verbatim>\<open>raise_for_status\<close>.
\<close>

definition download_file ::
  "(string \<Rightarrow> error + string) \<Rightarrow> string \<Rightarrow> world \<Rightarrow> string \<Rightarrow> string \<Rightarrow> error + string \<times> world" where
  "download_file net base_dir w url local_filename =
     (let local_path = path_join base_dir local_filename in
      if path_exists w local_path then Inr (local_path, w)
      else
        (case net url of
           Inl e \<Rightarrow> Inl e
         | Inr body \<Rightarrow>
             (case open_write (w\<lparr>fetched := fetched w @ [url]\<rparr>) local_path body of
                Inl e \<Rightarrow> Inl e
              | Inr w' \<Rightarrow> Inr (local_path, w'))))"

definition results_dir :: string where
  "results_dir = ''results''"

definition summary_path :: string where
  "summary_path = path_join results_dir ''analysis_summary.csv''"

text \<open>
  The first loop of \<^verbatim>\<open>save_results\<close> writes one file per DataFrame that is not empty;
  \<open>to_csv\<close> is the serializer of pandas, \<^verbatim>\<open>to_csv(index=False)\<close>. The loop stops at
  the first write that raises.
\<close>

definition save_step :: "(table \<Rightarrow> string) \<Rightarrow> world \<Rightarrow> string \<times> result \<Rightarrow> error + world" where
  "save_step to_csv w item =
     (case snd item of
        Frame result_df \<Rightarrow>
          if \<not> df_empty result_df
          then write_csv w (path_join results_dir (fst item @ ''.csv'')) (to_csv result_df)
          else Inr w
      | Other \<Rightarrow> Inr w)"

fun save_loop :: "(table \<Rightarrow> string) \<Rightarrow> world \<Rightarrow> (string \<times> result) list \<Rightarrow> error + world" where
  "save_loop to_csv w [] = Inr w"
| "save_loop to_csv w (item # items) =
     (case save_step to_csv w item of
        Inl e \<Rightarrow> Inl e
      | Inr w' \<Rightarrow> save_loop to_csv w' items)"

text \<open>
  The summary dictionary: the time of the run (\<open>now\<close> is the formatted
  \<^verbatim>\<open>pd.Timestamp.now()\<close>), the kind of dataset, and one row count per DataFrame.
\<close>

definition count_step :: "(string \<times> cell) list \<Rightarrow> string \<times> result \<Rightarrow> (string \<times> cell) list" where
  "count_step summary item =
     (case snd item of
        Frame result_df \<Rightarrow>
          AList.update (fst item @ ''_count'') (Num (of_nat (length (rows result_df)))) summary
      | Other \<Rightarrow> summary)"

definition run_summary :: "string \<Rightarrow> (string \<times> result) list \<Rightarrow> (string \<times> cell) list" where
  "run_summary now results =
     foldl count_step
       [(''timestamp'', Str now),
        (''dataset'', Str (if ''top_services'' \<in> set (map fst results)
                           then ''Provider-Service'' else ''Provider''))]
       results"

definition summary_df :: "string \<Rightarrow> (string \<times> result) list \<Rightarrow> table" where
  "summary_df now results =
     \<lparr>columns = map fst (run_summary now results), rows = [map snd (run_summary now results)]\<rparr>"

definition save_results ::
  "(table \<Rightarrow> string) \<Rightarrow> string \<Rightarrow> (string \<times> result) list \<Rightarrow> world \<Rightarrow> error + world" where
  "save_results to_csv now results w =
     (case save_loop to_csv w results of
        Inl e \<Rightarrow> Inl e
      | Inr w' \<Rightarrow> write_csv w' summary_path (to_csv (summary_df now results)))"

text \<open>
  \<open>loop_writes\<close> lists what the first loop of \<^verbatim>\<open>save_results\<close> writes: the path and
  the bytes of every DataFrame that is not empty. \<open>new_writes w w'\<close> are the paths written
  between the states \<open>w\<close> and \<open>w'\<close>, and \<open>plain_names\<close> says that no name of the
  dictionary holds a \<^verbatim>\<open>/\<close>, so that every file lies in the results directory itself.
\<close>

definition loop_writes :: "(table \<Rightarrow> string) \<Rightarrow> (string \<times> result) list \<Rightarrow> (string \<times> string) list" where
  "loop_writes to_csv results =
     concat (map (\<lambda>item. case snd item of
                     Frame df \<Rightarrow>
                       if \<not> df_empty df
                       then [(path_join results_dir (fst item @ ''.csv''), to_csv df)] else []
                   | Other \<Rightarrow> []) results)"

definition new_writes :: "world \<Rightarrow> world \<Rightarrow> string list" where
  "new_writes w w' = drop (length (written w)) (written w')"

definition plain_names :: "(string \<times> result) list \<Rightarrow> bool" where
  "plain_names results = list_all (\<lambda>item. CHR ''/'' \<notin> set (fst item)) results"

text \<open>
  The library that the fetch stage calls: the network, the parser and the serializer of
  CSV, Python's rendering of a number as a string, and the floating-point operations.
  The parser yields a table with its dtypes.
\<close>

record library =
  http_get :: "string \<Rightarrow> error + string"
  parse_csv :: "string \<Rightarrow> error + dtypes \<times> table"
  render_csv :: "table \<Rightarrow> string"
  render_num :: "rat \<Rightarrow> string"
  float_ops :: floats

definition read_csv :: "library \<Rightarrow> world \<Rightarrow> string \<Rightarrow> error + dtypes \<times> table" where
  "read_csv lib w p = (case read_bytes w p of Inl e \<Rightarrow> Inl e | Inr bytes \<Rightarrow> parse_csv lib bytes)"

definition provider_dataset_url :: string where
  "provider_dataset_url =
     ''https://data.cms.gov/sites/default/files/2024-06/5aed74f7-d04e-48b4-93b3-d396a2e59c87/MUP_PHY_R24_P07_V10_D22_Prov.csv''"

text \<open>
  \<^verbatim>\<open>get_medicare_providers\<close>: without a cached file it calls \<open>download_file\<close> with the
  path of the cached file, which already starts with the data directory, and then reads
  the cached file.
\<close>

definition get_medicare_providers :: "library \<Rightarrow> string \<Rightarrow> world \<Rightarrow> error + (dtypes \<times> table) \<times> world" where
  "get_medicare_providers lib base_dir w =
     (let cached_file = path_join base_dir ''medicare_providers.csv'' in
      if path_exists w cached_file then
        (case read_csv lib w cached_file of
           Inl e \<Rightarrow> Inl e
         | Inr providers_df \<Rightarrow> Inr (providers_df, w))
      else
        (case download_file (http_get lib) base_dir w provider_dataset_url cached_file of
           Inl e \<Rightarrow> Inl e
         | Inr pw \<Rightarrow>
             (case read_csv lib (snd pw) cached_file of
                Inl e \<Rightarrow> Inl e
              | Inr providers_df \<Rightarrow> Inr (providers_df, snd pw))))"

definition service_file :: "string \<Rightarrow> string" where
  "service_file base_dir = path_join base_dir ''MUP_PHY_R24_P05_V10_D22_Prov_Svc.csv''"

text \<open>
  The analysis of the provider table, the second branch of \<^verbatim>\<open>run_analysis\<close> up to the
  results dictionary.
\<close>

definition analyze_provider_data :: "library \<Rightarrow> dtypes \<Rightarrow> table \<Rightarrow> error + (string \<times> result) list" where
  "analyze_provider_data lib dt medicare_providers =
     (let upstate_ny_providers = filter_upstate_ny_providers (render_num lib) medicare_providers in
      case find_community_care_providers dt upstate_ny_providers of
        Inl e \<Rightarrow> Inl e
      | Inr community_care_providers \<Rightarrow>
          let provider_metrics = analyze_provider_metrics community_care_providers;
              metrics_dt = metrics_dtypes dt community_care_providers;
              specialty_distribution = get_specialty_distribution provider_metrics
          in
          (case get_payment_statistics metrics_dt provider_metrics of
             Inl e \<Rightarrow> Inl e
           | Inr payment_stats \<Rightarrow>
               let service_volume =
                     get_service_volume_by_provider (float_ops lib) metrics_dt provider_metrics
               in Inr [(''provider_metrics'', Frame provider_metrics),
                       (''specialty_distribution'', Frame specialty_distribution),
                       (''payment_stats'', payment_stats),
                       (''service_volume'', Frame service_volume)]))"

definition run_analysis :: "library \<Rightarrow> string \<Rightarrow> string \<Rightarrow> world \<Rightarrow> error + world" where
  "run_analysis lib base_dir now w =
     (if path_exists w (service_file base_dir) then
        (case read_csv lib w (service_file base_dir) of
           Inl e \<Rightarrow> Inl e
         | Inr provider_service_data \<Rightarrow>
             (case analyze_provider_service_data (float_ops lib)
                     (fst provider_service_data) (snd provider_service_data) of
                Inl e \<Rightarrow> Inl e
              | Inr results \<Rightarrow> save_results (render_csv lib) now results w))
      else
        (case get_medicare_providers lib base_dir w of
           Inl e \<Rightarrow> Inl e
         | Inr dw \<Rightarrow>
             (case analyze_provider_data lib (fst (fst dw)) (snd (fst dw)) of
                Inl e \<Rightarrow> Inl e
              | Inr results \<Rightarrow> save_results (render_csv lib) now results (snd dw))))"

text \<open>
  The fetch stage is the main program: it constructs the fetcher for the data directory
  \<^verbatim>\<open>data\<close>, which creates the data directory and the results directory when they are
  missing, and runs the analysis.
\<close>

definition new_fetcher :: "string \<Rightarrow> world \<Rightarrow> error + world" where
  "new_fetcher data_dir w =
     (case mkdir w data_dir of
        Inl e \<Rightarrow> Inl e
      | Inr w' \<Rightarrow> mkdir w' results_dir)"

definition fetch_stage :: "library \<Rightarrow> string \<Rightarrow> world \<Rightarrow> error + world" where
  "fetch_stage lib now w =
     (case new_fetcher ''data'' w of
        Inl e \<Rightarrow> Inl e
      | Inr w' \<Rightarrow> run_analysis lib ''data'' now w')"

text \<open>
  \<open>same_inputs d w w'\<close>: the two states have the same directories and the same bytes in
  the two files that the fetch stage reads from the data directory \<open>d\<close>.
\<close>

definition same_inputs :: "string \<Rightarrow> world \<Rightarrow> world \<Rightarrow> bool" where
  "same_inputs d w w' \<longleftrightarrow> dirs w' = dirs w \<and>
     files w' (service_file d) = files w (service_file d) \<and>
     files w' (path_join d ''medicare_providers.csv'') = files w (path_join d ''medicare_providers.csv'')"

text \<open>
  What a run leaves behind: \<open>returns r\<close> when it raised nothing, \<open>files_after r p\<close> the
  bytes of the file \<open>p\<close> after it, \<open>writes_after w r\<close> the paths it wrote and
  \<open>fetched_after r\<close> the URLs requested up to its end; \<open>and_then r f\<close> is a run
  followed by the run \<open>f\<close> on the state it leaves.
\<close>

definition returns :: "error + world \<Rightarrow> bool" where
  "returns r = (case r of Inr w \<Rightarrow> True | Inl e \<Rightarrow> False)"

definition files_after :: "error + world \<Rightarrow> string \<Rightarrow> string option" where
  "files_after r p = (case r of Inr w \<Rightarrow> files w p | Inl e \<Rightarrow> None)"

definition writes_after :: "world \<Rightarrow> error + world \<Rightarrow> string list" where
  "writes_after w r = (case r of Inr w' \<Rightarrow> new_writes w w' | Inl e \<Rightarrow> [])"

definition fetched_after :: "error + world \<Rightarrow> string list" where
  "fetched_after r = (case r of Inr w \<Rightarrow> fetched w | Inl e \<Rightarrow> [])"

definition and_then :: "error + world \<Rightarrow> (world \<Rightarrow> error + world) \<Rightarrow> error + world" where
  "and_then r f = (case r of Inr w \<Rightarrow> f w | Inl e \<Rightarrow> Inl e)"

section \<open>The visualizer\<close>

text \<open>
  A figure is its title and its traces, a trace the kind of drawing with the data it draws.
  Layout, colours, marker sizes and hover texts are left out, and so are the statistics
  computed in floating point (the correlations of the heat map), of which the trace keeps
  the labels. A chart constructor returns a figure, \<^verbatim>\<open>None\<close> (no chart), or raises.
\<close>

datatype trace =
  Bar "cell list" "cell list"
  | Pie "cell list" "cell list"
  | Scatter "cell list" "cell list"
  | Histogram "cell list"
  | Box "cell list"
  | Heatmap "string list"

record figure =
  title :: string
  traces :: "trace list"

text \<open>
  \<open>with_columns cs df fig\<close>: the constructor reads the columns \<open>cs\<close> in this order, and
  the first one that is missing raises \<^verbatim>\<open>KeyError\<close>.
\<close>

definition with_columns :: "string list \<Rightarrow> table \<Rightarrow> figure \<Rightarrow> error + figure option" where
  "with_columns cs df fig =
     (case first_missing cs df of Some c \<Rightarrow> Inl (KeyError c) | None \<Rightarrow> Inr (Some fig))"

definition full_name :: "cell \<Rightarrow> cell \<Rightarrow> cell" where
  "full_name last_name first_name =
     (case (last_name, first_name) of (Str l, Str f) \<Rightarrow> Str (l @ '', '' @ f) | _ \<Rightarrow> NaN)"

definition provider_names :: "table \<Rightarrow> cell list" where
  "provider_names df = map2 full_name (col_values df ''Last Name'') (col_values df ''First Name'')"

subsection \<open>CMSDataVisualizer\<close>

definition create_top_providers_chart :: "table \<Rightarrow> error + figure option" where
  "create_top_providers_chart df =
     (if df_empty df then Inr None
      else
        let top_providers = nlargest 10 ''Total Services'' df
        in with_columns [''Total Services'', ''Last Name'', ''First Name''] df
             \<lparr>title = ''Top 10 Providers by Service Volume'',
              traces = [Bar (col_values top_providers ''Total Services'') (provider_names top_providers)]\<rparr>)"

definition create_correlation_heatmap :: "table \<Rightarrow> error + figure option" where
  "create_correlation_heatmap df =
     (if df_empty df then Inr None
      else with_columns [''Total Services'', ''Avg Payment Amount'', ''Total Beneficiaries''] df
             \<lparr>title = [],
              traces = [Heatmap [''Total Services'', ''Avg Payment Amount'', ''Total Beneficiaries'']]\<rparr>)"

definition create_specialty_distribution_chart :: "table \<Rightarrow> error + figure option" where
  "create_specialty_distribution_chart df =
     (if df_empty df then Inr None
      else with_columns [''Specialty'', ''Provider Count''] df
             \<lparr>title = ''Distribution of Provider Specialties'',
              traces = [Pie (col_values df ''Specialty'') (col_values df ''Provider Count'')]\<rparr>)"

text \<open>
  The short description is \<^verbatim>\<open>x[:50] + '...' if len(x) > 50 else x\<close>; \<^verbatim>\<open>len\<close> of
  a cell that is not a text raises \<^verbatim>\<open>TypeError\<close>.
\<close>

definition short_description :: "cell \<Rightarrow> cell option" where
  "short_description x =
     (case x of Str s \<Rightarrow> Some (Str (if length s > 50 then take 50 s @ ''...'' else s)) | _ \<Rightarrow> None)"

definition create_top_services_chart :: "table \<Rightarrow> error + figure option" where
  "create_top_services_chart df =
     (if df_empty df then Inr None
      else
        let df15 = head 15 df in
        if ''HCPCS Description'' \<notin> set (columns df15) then Inl (KeyError ''HCPCS Description'')
        else
          let short = map short_description (col_values df15 ''HCPCS Description'') in
          if None \<in> set short then Inl TypeError
          else with_columns [''Total Services''] df15
                 \<lparr>title = ''Top 15 Services by Volume'',
                  traces = [Bar (col_values df15 ''Total Services'')
                              (concat (map (\<lambda>d. case d of Some v \<Rightarrow> [v] | None \<Rightarrow> []) short))]\<rparr>)"

definition create_provider_metrics_chart :: "table \<Rightarrow> error + figure option" where
  "create_provider_metrics_chart df =
     (if df_empty df then Inr None
      else with_columns [''Total Services'', ''Avg Payment Amount'', ''Unique Services'',
                         ''Total Beneficiaries'', ''Last Name'', ''Specialty''] df
             \<lparr>title = ''Provider Service Volume vs. Payment Analysis'',
              traces = [Scatter (col_values df ''Total Services'') (col_values df ''Avg Payment Amount'')]\<rparr>)"

definition efficiency_score :: "table \<Rightarrow> cell list" where
  "efficiency_score df =
     map2 (\<lambda>s b. times100 (float_div s b))
       (col_values df ''Total Services'') (col_values df ''Total Beneficiaries'')"

definition fillna0 :: "cell \<Rightarrow> cell" where
  "fillna0 x = (if x = NaN then Num 0 else x)"

definition create_provider_performance_matrix :: "table \<Rightarrow> error + figure option" where
  "create_provider_performance_matrix df =
     (if df_empty df then Inr None
      else with_columns [''Total Services'', ''Total Beneficiaries'', ''Quality Metrics'',
                         ''Avg Payment Amount'', ''Last Name'', ''Specialty''] df
             \<lparr>title = ''Provider Performance Matrix'',
              traces = [Scatter (efficiency_score df) (map fillna0 (col_values df ''Quality Metrics''))]\<rparr>)"

definition group_mean :: "table \<Rightarrow> string \<Rightarrow> string \<Rightarrow> cell \<Rightarrow> cell" where
  "group_mean df by col k =
     col_mean (col_values (select_rows (\<lambda>r. cell_at (columns df) r by = k) df) col)"

definition create_specialty_benchmarking_chart :: "table \<Rightarrow> error + figure option" where
  "create_specialty_benchmarking_chart df =
     (if df_empty df then Inr None
      else
        let specialties = group_keys (col_values df ''Specialty'')
        in with_columns [''Specialty'', ''Total Services'', ''Avg Payment Amount'', ''Total Beneficiaries''] df
             \<lparr>title = ''Specialty Benchmarking'',
              traces = [Bar specialties (map (group_mean df ''Specialty'' ''Total Services'') specialties),
                        Bar specialties (map (group_mean df ''Specialty'' ''Avg Payment Amount'') specialties)]\<rparr>)"

definition create_quality_metrics_dashboard :: "table \<Rightarrow> error + figure option" where
  "create_quality_metrics_dashboard df =
     (if df_empty df then Inr None
      else
        let top_providers = nlargest 10 ''Quality Score'' df
        in with_columns [''Quality Score'', ''Efficiency Score'', ''Quality per Service'',
                         ''Last Name'', ''First Name''] df
             \<lparr>title = ''Provider Quality Metrics Dashboard'',
              traces = [Histogram (col_values df ''Quality Score''),
                        Scatter (col_values df ''Efficiency Score'') (col_values df ''Quality Score''),
                        Box (col_values df ''Quality per Service''),
                        Bar (col_values top_providers ''Quality Score'') (provider_names top_providers)]\<rparr>)"

subsection \<open>CMSVisualizer, the simplified visualizer\<close>

text \<open>
  \<^verbatim>\<open>create_services_chart\<close> has no test for an empty table. It sorts by the volume
  (\<^verbatim>\<open>KeyError\<close> without the column), draws the bars (\<^verbatim>\<open>px.bar\<close> raises
  \<^verbatim>\<open>ValueError\<close> when \<^verbatim>\<open>x\<close> names no column), and reads the first row with
  \<^verbatim>\<open>iloc[0]\<close> for the annotation, which raises \<^verbatim>\<open>IndexError\<close> when there is no
  row; the description of that row is sliced, which raises \<^verbatim>\<open>TypeError\<close> on a cell
  that is not a text.
\<close>

definition create_services_chart :: "table \<Rightarrow> error + figure option" where
  "create_services_chart df =
     (if ''Total Services'' \<notin> set (columns df) then Inl (KeyError ''Total Services'')
      else
        let df_sorted = head 10 (sort_desc ''Total Services'' df) in
        if ''HCPCS Code'' \<notin> set (columns df_sorted) then Inl (ValueError ''HCPCS Code'')
        else
          (case rows df_sorted of
             [] \<Rightarrow> Inl IndexError
           | top_service # rest \<Rightarrow>
               if ''HCPCS Description'' \<notin> set (columns df_sorted)
               then Inl (KeyError ''HCPCS Description'')
               else
                 (case cell_at (columns df_sorted) top_service ''HCPCS Description'' of
                    Str description \<Rightarrow>
                      Inr (Some \<lparr>title = ''Top 10 Services by Volume'',
                                 traces = [Bar (col_values df_sorted ''HCPCS Code'')
                                             (col_values df_sorted ''Total Services'')]\<rparr>)
                  | _ \<Rightarrow> Inl TypeError)))"

section \<open>Example inputs\<close>

text \<open>
  A provider table whose county column is the state FIPS code, as in the published file:
  two providers in New York, one in Vermont. No county name occurs in the FIPS code.
\<close>

definition fips_table :: table where
  "fips_table =
     \<lparr>columns = [''Rndrng_NPI'', ''Rndrng_Prvdr_State_Abrvtn'', ''Rndrng_Prvdr_State_FIPS''],
      rows = [[Num 1003000126, Str ''NY'', Num 36],
              [Num 1003000134, Str ''VT'', Num 50],
              [Num 1003000142, Str ''NY'', Num 36]]\<rparr>"

text \<open>A provider table with a county name column: one provider in Albany county.\<close>

definition county_table :: table where
  "county_table =
     \<lparr>columns = [''Rndrng_NPI'', ''State'', ''County''],
      rows = [[Num 1, Str ''NY'', Str ''Albany County''],
              [Num 2, Str ''NY'', Str ''Kings''],
              [Num 3, Str ''NJ'', Str ''Warren'']]\<rparr>"

text \<open>\<open>fmt_digits\<close> renders the numbers that occur in the examples.\<close>

definition fmt_digits :: "rat \<Rightarrow> string" where
  "fmt_digits q =
     (case map_of [(0, ''0''), (1, ''1''), (2, ''2''), (3, ''3''), (11, ''11''), (12, ''12''),
                   (21, ''21''), (22, ''22''), (36, ''36''), (50, ''50'')] q of
        Some s \<Rightarrow> s | None \<Rightarrow> ''?'')"

text \<open>
  \<open>dtypes_of\<close> gives the listed columns their dtype and every other column the dtype
  \<^verbatim>\<open>object\<close>.
\<close>

definition dtypes_of :: "(string \<times> dtype) list \<Rightarrow> dtypes" where
  "dtypes_of ds col = (case map_of ds col of Some d \<Rightarrow> d | None \<Rightarrow> Object)"








text \<open>
  A provider table that names the identifier twice (\<^verbatim>\<open>NPI\<close> before
  \<^verbatim>\<open>Rndrng_Prvdr_NPI\<close>) and has a column no alias list knows; a table with only
  unknown columns.
\<close>

definition alias_table :: table where
  "alias_table =
     \<lparr>columns = [''NPI'', ''Rndrng_Prvdr_NPI'', ''Notes'', ''Specialty''],
      rows = [[Num 11, Num 21, Str ''x'', Str ''Urology''],
              [Num 12, Num 22, Str ''y'', Str ''Neurology'']]\<rparr>"

definition unknown_table :: table where
  "unknown_table = \<lparr>columns = [''Foo''], rows = [[Str ''x'']]\<rparr>"

text \<open>
  \<open>plain_csv\<close> is a serializer that writes the header and the rows with commas between
  the cells, as \<^verbatim>\<open>to_csv(index=False)\<close> does for texts without a comma or a quote
  and for integers.
\<close>

fun join_comma :: "string list \<Rightarrow> string" where
  "join_comma [] = []"
| "join_comma [x] = x"
| "join_comma (x # y # ys) = x @ '','' @ join_comma (y # ys)"

definition plain_csv :: "table \<Rightarrow> string" where
  "plain_csv t =
     join_comma (columns t) @ [CHR 0x0A] @
     concat (map (\<lambda>r. join_comma (map (astype_str fmt_digits) r) @ [CHR 0x0A]) (rows t))"

text \<open>
  A results dictionary with a table of two rows, an empty table and a value that is no
  table; a dictionary whose only name is that of the run summary; and a state in which the
  results directory exists and nothing else.
\<close>

definition some_results :: "(string \<times> result) list" where
  "some_results =
     [(''specialty_distribution'',
         Frame \<lparr>columns = [''Specialty'', ''Count''],
                rows = [[Str ''Urology'', Num 2], [Str ''Neurology'', Num 1]]\<rparr>),
      (''service_volume'', Frame empty_df),
      (''payment_stats'', Other)]"

definition summary_named_results :: "(string \<times> result) list" where
  "summary_named_results = [(''analysis_summary'', Frame empty_df)]"

definition fresh_world :: world where
  "fresh_world = \<lparr>files = Map.empty, dirs = [''results''], fetched = [], written = []\<rparr>"

text \<open>
  A run without network. The data directory holds the cached provider file with three
  providers; every request fails; the parser knows this file, in which the identifier and
  the volume are columns of integers; floating-point operations are exact on the small
  numbers of the examples.
\<close>

definition providers_csv :: string where
  "providers_csv =
     ''NPI,Rndrng_Prvdr_Last_Org_Name,Rndrng_Prvdr_State_Abrvtn,Rndrng_Prvdr_City,Rndrng_Prvdr_Type,Tot_Srvcs\<newline>'' @
     ''11,Smith,NY,Albany,Family Practice,12\<newline>'' @
     ''12,Jones,NY,Buffalo,Dermatology,50\<newline>'' @
     ''21,Brown,VT,Troy,Family Practice,3\<newline>''"

definition providers_table :: table where
  "providers_table =
     \<lparr>columns = [''NPI'', ''Rndrng_Prvdr_Last_Org_Name'', ''Rndrng_Prvdr_State_Abrvtn'',
                 ''Rndrng_Prvdr_City'', ''Rndrng_Prvdr_Type'', ''Tot_Srvcs''],
      rows = [[Num 11, Str ''Smith'', Str ''NY'', Str ''Albany'', Str ''Family Practice'', Num 12],
              [Num 12, Str ''Jones'', Str ''NY'', Str ''Buffalo'', Str ''Dermatology'', Num 50],
              [Num 21, Str ''Brown'', Str ''VT'', Str ''Troy'', Str ''Family Practice'', Num 3]]\<rparr>"

definition providers_dtypes :: dtypes where
  "providers_dtypes = dtypes_of [(''NPI'', Int64), (''Tot_Srvcs'', Int64)]"

definition exact_floats :: floats where
  "exact_floats =
     \<lparr>fsum = (\<lambda>xs. Num (sum_list (numbers xs))),
      fmean = col_mean,
      fsub = float_sub,
      fdiv = float_div,
      fmul = (\<lambda>a b. case (a, b) of (Num x, Num y) \<Rightarrow> Num (x * y) | _ \<Rightarrow> NaN)\<rparr>"

definition offline_lib :: library where
  "offline_lib =
     \<lparr>http_get = (\<lambda>url. Inl HTTPError),
      parse_csv = (\<lambda>bytes. if bytes = providers_csv then Inr (providers_dtypes, providers_table)
                            else Inl ParserError),
      render_csv = plain_csv,
      render_num = fmt_digits,
      float_ops = exact_floats\<rparr>"

definition cached_world :: world where
  "cached_world =
     \<lparr>files = [''data/medicare_providers.csv'' \<mapsto> providers_csv],
      dirs = [''data''], fetched = [], written = []\<rparr>"

definition first_run :: "error + world" where
  "first_run = fetch_stage offline_lib ''2024-05-01 10:00:00'' cached_world"

definition second_run :: "error + world" where
  "second_run = and_then first_run (fetch_stage offline_lib ''2024-05-01 10:05:00'')"

text \<open>
  The table that \<^verbatim>\<open>read_csv\<close> yields for a file that holds only the header of the
  top-services table, and a table with two services.
\<close>

definition header_only_services :: table where
  "header_only_services =
     \<lparr>columns = [''HCPCS Code'', ''HCPCS Description'', ''Total Services''], rows = []\<rparr>"

definition two_services :: table where
  "two_services =
     \<lparr>columns = [''HCPCS Code'', ''HCPCS Description'', ''Total Services''],
      rows = [[Str ''99213'', Str ''Office visit, established patient'', Num 12],
              [Str ''G0439'', Str ''Annual wellness visit'', Num 50]]\<rparr>"

text \<open>
  A provider-service table with 25 service codes, the code \<open>S\<close>\<^emph>\<open>i\<close> with the volume
  \<^emph>\<open>i\<close>, and the comparison of the table with itself: the 20 codes from \<open>S25\<close> down to
  \<open>S06\<close>.
\<close>

definition services25 :: table where
  "services25 =
     \<lparr>columns = [''HCPCS_Cd'', ''HCPCS_Desc'', ''Avg_Mdcr_Alowd_Amt'', ''Avg_Mdcr_Pymt_Amt'', ''Tot_Srvcs''],
      rows = [[Str ''S01'', Str ''visit'', Num 10, Num 8, Num 1],
              [Str ''S02'', Str ''visit'', Num 10, Num 8, Num 2],
              [Str ''S03'', Str ''visit'', Num 10, Num 8, Num 3],
              [Str ''S04'', Str ''visit'', Num 10, Num 8, Num 4],
              [Str ''S05'', Str ''visit'', Num 10, Num 8, Num 5],
              [Str ''S06'', Str ''visit'', Num 10, Num 8, Num 6],
              [Str ''S07'', Str ''visit'', Num 10, Num 8, Num 7],
              [Str ''S08'', Str ''visit'', Num 10, Num 8, Num 8],
              [Str ''S09'', Str ''visit'', Num 10, Num 8, Num 9],
              [Str ''S10'', Str ''visit'', Num 10, Num 8, Num 10],
              [Str ''S11'', Str ''visit'', Num 10, Num 8, Num 11],
              [Str ''S12'', Str ''visit'', Num 10, Num 8, Num 12],
              [Str ''S13'', Str ''visit'', Num 10, Num 8, Num 13],
              [Str ''S14'', Str ''visit'', Num 10, Num 8, Num 14],
              [Str ''S15'', Str ''visit'', Num 10, Num 8, Num 15],
              [Str ''S16'', Str ''visit'', Num 10, Num 8, Num 16],
              [Str ''S17'', Str ''visit'', Num 10, Num 8, Num 17],
              [Str ''S18'', Str ''visit'', Num 10, Num 8, Num 18],
              [Str ''S19'', Str ''visit'', Num 10, Num 8, Num 19],
              [Str ''S20'', Str ''visit'', Num 10, Num 8, Num 20],
              [Str ''S21'', Str ''visit'', Num 10, Num 8, Num 21],
              [Str ''S22'', Str ''visit'', Num 10, Num 8, Num 22],
              [Str ''S23'', Str ''visit'', Num 10, Num 8, Num 23],
              [Str ''S24'', Str ''visit'', Num 10, Num 8, Num 24],
              [Str ''S25'', Str ''visit'', Num 10, Num 8, Num 25]]\<rparr>"

definition comparison25 :: table where
  "comparison25 =
     \<lparr>columns = comparison_columns,
      rows = [[Str ''S25'', Str ''visit'', Num 10, Num 8, Num 25, Num 10, Num 8, Num 0, Num 0, Num 0, Num 0],
              [Str ''S24'', Str ''visit'', Num 10, Num 8, Num 24, Num 10, Num 8, Num 0, Num 0, Num 0, Num 0],
              [Str ''S23'', Str ''visit'', Num 10, Num 8, Num 23, Num 10, Num 8, Num 0, Num 0, Num 0, Num 0],
              [Str ''S22'', Str ''visit'', Num 10, Num 8, Num 22, Num 10, Num 8, Num 0, Num 0, Num 0, Num 0],
              [Str ''S21'', Str ''visit'', Num 10, Num 8, Num 21, Num 10, Num 8, Num 0, Num 0, Num 0, Num 0],
              [Str ''S20'', Str ''visit'', Num 10, Num 8, Num 20, Num 10, Num 8, Num 0, Num 0, Num 0, Num 0],
              [Str ''S19'', Str ''visit'', Num 10, Num 8, Num 19, Num 10, Num 8, Num 0, Num 0, Num 0, Num 0],
              [Str ''S18'', Str ''visit'', Num 10, Num 8, Num 18, Num 10, Num 8, Num 0, Num 0, Num 0, Num 0],
              [Str ''S17'', Str ''visit'', Num 10, Num 8, Num 17, Num 10, Num 8, Num 0, Num 0, Num 0, Num 0],
              [Str ''S16'', Str ''visit'', Num 10, Num 8, Num 16, Num 10, Num 8, Num 0, Num 0, Num 0, Num 0],
              [Str ''S15'', Str ''visit'', Num 10, Num 8, Num 15, Num 10, Num 8, Num 0, Num 0, Num 0, Num 0],
              [Str ''S14'', Str ''visit'', Num 10, Num 8, Num 14, Num 10, Num 8, Num 0, Num 0, Num 0, Num 0],
              [Str ''S13'', Str ''visit'', Num 10, Num 8, Num 13, Num 10, Num 8, Num 0, Num 0, Num 0, Num 0],
              [Str ''S12'', Str ''visit'', Num 10, Num 8, Num 12, Num 10, Num 8, Num 0, Num 0, Num 0, Num 0],
              [Str ''S11'', Str ''visit'', Num 10, Num 8, Num 11, Num 10, Num 8, Num 0, Num 0, Num 0, Num 0],
              [Str ''S10'', Str ''visit'', Num 10, Num 8, Num 10, Num 10, Num 8, Num 0, Num 0, Num 0, Num 0],
              [Str ''S09'', Str ''visit'', Num 10, Num 8, Num 9, Num 10, Num 8, Num 0, Num 0, Num 0, Num 0],
              [Str ''S08'', Str ''visit'', Num 10, Num 8, Num 8, Num 10, Num 8, Num 0, Num 0, Num 0, Num 0],
              [Str ''S07'', Str ''visit'', Num 10, Num 8, Num 7, Num 10, Num 8, Num 0, Num 0, Num 0, Num 0],
              [Str ''S06'', Str ''visit'', Num 10, Num 8, Num 6, Num 10, Num 8, Num 0, Num 0, Num 0, Num 0]]\<rparr>"

definition service_dtypes :: dtypes where
  "service_dtypes =
     dtypes_of [(''Avg_Mdcr_Alowd_Amt'', Int64), (''Avg_Mdcr_Pymt_Amt'', Int64), (''Tot_Srvcs'', Int64)]"

text \<open>
  A provider-service table with 21 service codes whose volumes are integers: the code
  \<open>S01\<close> in two rows with the volume \<open>2^62\<close> each, the code \<open>S\<close>\<^emph>\<open>i\<close> from \<open>S02\<close> to
  \<open>S21\<close> with the volume \<^emph>\<open>i\<close>.
\<close>

definition overflow_services :: table where
  "overflow_services =
     \<lparr>columns = [''HCPCS_Cd'', ''HCPCS_Desc'', ''Avg_Mdcr_Alowd_Amt'', ''Avg_Mdcr_Pymt_Amt'', ''Tot_Srvcs''],
      rows = [[Str ''S01'', Str ''visit'', Num 10, Num 8, Num 4611686018427387904],
              [Str ''S01'', Str ''visit'', Num 10, Num 8, Num 4611686018427387904],
              [Str ''S02'', Str ''visit'', Num 10, Num 8, Num 2],
              [Str ''S03'', Str ''visit'', Num 10, Num 8, Num 3],
              [Str ''S04'', Str ''visit'', Num 10, Num 8, Num 4],
              [Str ''S05'', Str ''visit'', Num 10, Num 8, Num 5],
              [Str ''S06'', Str ''visit'', Num 10, Num 8, Num 6],
              [Str ''S07'', Str ''visit'', Num 10, Num 8, Num 7],
              [Str ''S08'', Str ''visit'', Num 10, Num 8, Num 8],
              [Str ''S09'', Str ''visit'', Num 10, Num 8, Num 9],
              [Str ''S10'', Str ''visit'', Num 10, Num 8, Num 10],
              [Str ''S11'', Str ''visit'', Num 10, Num 8, Num 11],
              [Str ''S12'', Str ''visit'', Num 10, Num 8, Num 12],
              [Str ''S13'', Str ''visit'', Num 10, Num 8, Num 13],
              [Str ''S14'', Str ''visit'', Num 10, Num 8, Num 14],
              [Str ''S15'', Str ''visit'', Num 10, Num 8, Num 15],
              [Str ''S16'', Str ''visit'', Num 10, Num 8, Num 16],
              [Str ''S17'', Str ''visit'', Num 10, Num 8, Num 17],
              [Str ''S18'', Str ''visit'', Num 10, Num 8, Num 18],
              [Str ''S19'', Str ''visit'', Num 10, Num 8, Num 19],
              [Str ''S20'', Str ''visit'', Num 10, Num 8, Num 20],
              [Str ''S21'', Str ''visit'', Num 10, Num 8, Num 21]]\<rparr>"

section \<open>Evaluation\<close>

text \<open>
  \<open>upper_char\<close> on the bits of a character: a lower-case letter is a code from 0x61 to
  0x7A, and its capital clears bit 5. The equation makes the evaluation of the text tests
  on concrete tables fast.
\<close>

lemma upper_char_bits [code]:
  "upper_char (Char b0 b1 b2 b3 b4 b5 b6 b7) =
     (if b5 \<and> b6 \<and> \<not> b7 \<and> (b0 \<or> b1 \<or> b2 \<or> b3 \<or> b4) \<and> \<not> (b4 \<and> b3 \<and> (b2 \<or> (b1 \<and> b0)))
      then Char b0 b1 b2 b3 b4 False b6 b7
      else Char b0 b1 b2 b3 b4 b5 b6 b7)"
  by (cases b0; cases b1; cases b2; cases b3; cases b4; cases b5; cases b6; cases b7)
     (simp_all add: upper_char_def lower_letters_def upper_letters_def)

section \<open>Properties of the region filter\<close>

lemma counties_literal: "literal_names upstate_ny_counties"
  by (simp add: literal_names_def upstate_ny_counties_def regex_special_def)

lemma columns_state_level: "columns (state_level df sc) = columns df"
  by (simp add: state_level_def select_rows_def)

lemma rows_state_level:
  "set (rows (state_level df sc)) = {r \<in> set (rows df). cell_at (columns df) r sc = Str ny_state_code}"
  by (simp add: state_level_def select_rows_def)

lemma rows_county_level: "set (rows (county_level fmt ny cc)) \<subseteq> set (rows ny)"
  by (auto simp: county_level_def select_rows_def)

lemma columns_county_level: "columns (county_level fmt ny cc) = columns ny"
  by (simp add: county_level_def select_rows_def)

lemma filter_upstate_cases:
  assumes "first_present possible_state_cols (columns df) = Some sc"
  shows "filter_upstate_ny_providers fmt df = state_level df sc \<or>
         (\<exists>cc. filter_upstate_ny_providers fmt df = county_level fmt (state_level df sc) cc)"
  using assms by (auto simp: filter_upstate_ny_providers_def Let_def split: option.splits)

text \<open>
  C3. Region-narrowing fallback: when the state-level filter keeps at least one row and
  the county filter on those rows keeps none, \<open>filter_upstate_ny_providers\<close> returns the
  state-level table, which is not empty.
\<close>

theorem region_fallback_state_level:
  assumes "first_present possible_state_cols (columns df) = Some sc"
    and "first_present possible_county_cols (columns df) = Some cc"
    and "length (rows (state_level df sc)) > 0"
    and "length (rows (county_level fmt (state_level df sc) cc)) = 0"
  shows "filter_upstate_ny_providers fmt df = state_level df sc \<and>
         rows (filter_upstate_ny_providers fmt df) \<noteq> []"
  using assms by (auto simp: filter_upstate_ny_providers_def Let_def)

theorem region_fallback_state_level_witness:
  "filter_upstate_ny_providers fmt_digits fips_table =
     state_level fips_table ''Rndrng_Prvdr_State_Abrvtn'' \<and>
   rows (filter_upstate_ny_providers fmt_digits fips_table) \<noteq> [] \<and>
   rows (state_level fips_table ''Rndrng_Prvdr_State_Abrvtn'') =
     [[Num 1003000126, Str ''NY'', Num 36], [Num 1003000142, Str ''NY'', Num 36]] \<and>
   rows (county_level fmt_digits (state_level fips_table ''Rndrng_Prvdr_State_Abrvtn'')
     ''Rndrng_Prvdr_State_FIPS'') = []"
proof -
  have sc: "first_present possible_state_cols (columns fips_table) = Some ''Rndrng_Prvdr_State_Abrvtn''"
    by code_simp
  have cc: "first_present possible_county_cols (columns fips_table) = Some ''Rndrng_Prvdr_State_FIPS''"
    by code_simp
  have ny: "rows (state_level fips_table ''Rndrng_Prvdr_State_Abrvtn'') =
      [[Num 1003000126, Str ''NY'', Num 36], [Num 1003000142, Str ''NY'', Num 36]]"
    by code_simp
  have up: "rows (county_level fmt_digits (state_level fips_table ''Rndrng_Prvdr_State_Abrvtn'')
      ''Rndrng_Prvdr_State_FIPS'') = []"
    by code_simp
  from region_fallback_state_level [OF sc cc, of fmt_digits] ny up show ?thesis
    by simp
qed

text \<open>
  C9. Every row that \<open>filter_upstate_ny_providers\<close> returns is a row of the input whose
  state cell is the text NY, whether the county filter or its fallback produced the result;
  the columns are those of the input.
\<close>

theorem region_filter_rows_in_ny:
  assumes "first_present possible_state_cols (columns df) = Some sc"
  shows "columns (filter_upstate_ny_providers fmt df) = columns df \<and>
         (\<forall>r \<in> set (rows (filter_upstate_ny_providers fmt df)).
            r \<in> set (rows df) \<and> cell_at (columns df) r sc = Str ''NY'')"
proof -
  let ?ny = "state_level df sc"
  have ny: "\<forall>r \<in> set (rows ?ny). r \<in> set (rows df) \<and> cell_at (columns df) r sc = Str ''NY''"
    by (simp add: rows_state_level ny_state_code_def)
  from filter_upstate_cases [OF assms, of fmt] show ?thesis
  proof
    assume "filter_upstate_ny_providers fmt df = ?ny"
    with ny show ?thesis by (simp add: columns_state_level)
  next
    assume "\<exists>cc. filter_upstate_ny_providers fmt df = county_level fmt ?ny cc"
    then obtain cc where eq: "filter_upstate_ny_providers fmt df = county_level fmt ?ny cc" ..
    have "set (rows (county_level fmt ?ny cc)) \<subseteq> set (rows ?ny)"
      by (rule rows_county_level)
    with ny eq show ?thesis
      by (auto simp: columns_county_level columns_state_level)
  qed
qed

theorem region_filter_rows_in_ny_witness:
  "rows (filter_upstate_ny_providers fmt_digits county_table) = [[Num 1, Str ''NY'', Str ''Albany County'']] \<and>
   columns (filter_upstate_ny_providers fmt_digits county_table) = columns county_table \<and>
   [Num 1, Str ''NY'', Str ''Albany County''] \<in> set (rows county_table) \<and>
   cell_at (columns county_table) [Num 1, Str ''NY'', Str ''Albany County''] ''State'' = Str ''NY''"
proof -
  have sc: "first_present possible_state_cols (columns county_table) = Some ''State''"
    by code_simp
  have res: "rows (filter_upstate_ny_providers fmt_digits county_table) =
      [[Num 1, Str ''NY'', Str ''Albany County'']]"
    by code_simp
  from region_filter_rows_in_ny [OF sc, of fmt_digits] res show ?thesis
    by simp
qed

section \<open>Properties of the target-population match\<close>

lemma practices_literal: "literal_names community_care_practices"
  by code_simp
lemma cities_literal: "literal_names upstate_cities" by code_simp
lemma specialties_literal: "literal_names common_specialties" by code_simp
lemma addresses_literal: "literal_names address_patterns" by code_simp






lemma str_test_Inl: "str_test dt df col p = Inl e \<longleftrightarrow> \<not> text_column dt df col \<and> e = AttributeError"
  by (auto simp: str_test_def)



lemma or_column_Inl: "or_column dt df p msk col = Inl e \<Longrightarrow> e = AttributeError"
  by (auto simp: or_column_def str_test_Inl split: sum.splits if_splits)



lemma or_columns_Inl: "or_columns dt df p msk cols = Inl e \<Longrightarrow> e = AttributeError"
  by (induction cols arbitrary: msk) (auto dest: or_column_Inl split: sum.splits)



lemma specialty_step_Inl: "specialty_step dt df cm msk s = Inl e \<Longrightarrow> e = AttributeError"
  by (auto simp: specialty_step_def str_test_Inl split: sum.splits if_splits)



lemma specialty_loop_Inl: "specialty_loop dt df cm msk scs = Inl e \<Longrightarrow> e = AttributeError"
  by (induction scs arbitrary: msk) (auto dest: specialty_step_Inl split: sum.splits)



lemma city_step_Inl: "city_step dt df msk col = Inl e \<Longrightarrow> e = AttributeError"
  by (auto simp: city_step_def str_test_Inl dest: specialty_loop_Inl split: sum.splits if_splits)



lemma city_loop_Inl: "city_loop dt df msk ccs = Inl e \<Longrightarrow> e = AttributeError"
  by (induction ccs arbitrary: msk) (auto dest: city_step_Inl split: sum.splits)



lemma find_Inl: "find_community_care_providers dt df = Inl e \<Longrightarrow> e = AttributeError"
  by (auto simp: find_community_care_providers_def Let_def
      dest: or_columns_Inl or_column_Inl city_loop_Inl split: sum.splits if_splits)




lemma string_column_select: "string_column dt df col \<Longrightarrow> string_column dt (select_rows p df) col"
  by (auto simp: string_column_def list_all_iff col_values_def select_rows_def)





text \<open>
  The match raises nothing but \<^verbatim>\<open>AttributeError\<close>, and whenever it returns on a
  table that is not empty, it returns the rows of the four rules (\<open>find_rows\<close> above).
\<close>

lemma find_raises_attribute_error:
  "find_community_care_providers dt df = Inl e \<Longrightarrow> e = AttributeError"
  by (rule find_Inl)

section \<open>Properties of the population selection\<close>











section \<open>Properties of the column standardization\<close>

lemma first_present_split:
  assumes "first_present aliases cols = Some c"
  shows "\<exists>pre post. aliases = pre @ c # post \<and> c \<in> set cols \<and> (\<forall>a \<in> set pre. a \<notin> set cols)"
  using assms
proof (induction aliases)
  case Nil
  then show ?case by simp
next
  case (Cons a aliases)
  show ?case
  proof (cases "a \<in> set cols")
    case True
    with Cons.prems have "a = c" by simp
    with True have "a # aliases = [] @ c # aliases \<and> c \<in> set cols \<and> (\<forall>a \<in> set []. a \<notin> set cols)"
      by simp
    then show ?thesis by blast
  next
    case False
    with Cons.prems have "first_present aliases cols = Some c" by simp
    from Cons.IH [OF this] obtain pre post where
      "aliases = pre @ c # post" "c \<in> set cols" "\<forall>a \<in> set pre. a \<notin> set cols" by blast
    with False have "a # aliases = (a # pre) @ c # post \<and> c \<in> set cols \<and>
        (\<forall>x \<in> set (a # pre). x \<notin> set cols)" by simp
    then show ?thesis by blast
  qed
qed

lemma first_present_mem: "first_present aliases cols = Some c \<Longrightarrow> c \<in> set aliases"
  by (induction aliases) (auto split: if_splits)

lemma resolve_fold:
  "foldl (resolve_step cols) (av, m) entries =
     (av @ map fst (resolved cols entries), m ++ map_of (rev (resolved cols entries)))"
proof (induction entries arbitrary: av m)
  case Nil
  then show ?case by (simp add: resolved_def)
next
  case (Cons e entries)
  show ?case
  proof (cases "first_present (snd e) cols")
    case None
    then have step: "resolve_step cols (av, m) e = (av, m)"
      by (simp add: resolve_step_def)
    have r: "resolved cols (e # entries) = resolved cols entries"
      using None by (simp add: resolved_def)
    show ?thesis
      by (simp only: foldl_Cons step r Cons.IH)
  next
    case (Some col)
    then have step: "resolve_step cols (av, m) e = (av @ [col], m(col \<mapsto> fst e))"
      by (simp add: resolve_step_def)
    have r: "resolved cols (e # entries) = (col, fst e) # resolved cols entries"
      using Some by (simp add: resolved_def)
    show ?thesis
      by (simp add: step r Cons.IH) (simp add: map_add_def fun_eq_iff split: option.splits)
  qed
qed

lemma resolved_fst_subset: "set (map fst (resolved cols entries)) \<subseteq> set (concat (map snd entries))"
proof (induction entries)
  case Nil
  then show ?case by (simp add: resolved_def)
next
  case (Cons e entries)
  have r: "resolved cols (e # entries) =
      (case first_present (snd e) cols of Some col \<Rightarrow> [(col, fst e)] | None \<Rightarrow> []) @
      resolved cols entries"
    by (simp add: resolved_def)
  show ?case
  proof (cases "first_present (snd e) cols")
    case None
    with Cons.IH show ?thesis by (auto simp: r)
  next
    case (Some col)
    then have "col \<in> set (snd e)" by (rule first_present_mem)
    with Cons.IH Some show ?thesis by (auto simp: r)
  qed
qed

lemma map_of_rev_distinct:
  assumes "distinct (map fst xs)"
  shows "map_of (rev xs) = map_of xs"
proof (rule ext)
  fix k
  have d: "distinct (map fst (rev xs))"
    using assms by (simp add: rev_map [symmetric])
  show "map_of (rev xs) k = map_of xs k"
  proof (cases "map_of xs k")
    case None
    then have "k \<notin> fst ` set (rev xs)" by (simp add: map_of_eq_None_iff)
    then have "map_of (rev xs) k = None" by (rule map_of_eq_None_iff [THEN iffD2])
    with None show ?thesis by simp
  next
    case (Some v)
    then have "(k, v) \<in> set (rev xs)" by (auto dest: map_of_SomeD)
    with d have "map_of (rev xs) k = Some v" by (simp only: map_of_eq_Some_iff)
    with Some show ?thesis by simp
  qed
qed

lemma resolved_fst_distinct:
  assumes "distinct (concat (map snd entries))"
  shows "distinct (map fst (resolved cols entries))"
  using assms
proof (induction entries)
  case Nil
  then show ?case by (simp add: resolved_def)
next
  case (Cons e entries)
  then have d: "distinct (map fst (resolved cols entries))"
    and disj: "set (snd e) \<inter> set (concat (map snd entries)) = {}"
    by auto
  show ?case
  proof (cases "first_present (snd e) cols")
    case None
    with d show ?thesis by (simp add: resolved_def)
  next
    case (Some col)
    then have "col \<in> set (snd e)" by (rule first_present_mem)
    with disj resolved_fst_subset [of cols entries]
    have "col \<notin> set (map fst (resolved cols entries))" by blast
    with d Some show ?thesis by (simp add: resolved_def)
  qed
qed

lemma resolved_snd: "map snd (resolved cols entries) =
    map fst (filter (\<lambda>entry. first_present (snd entry) cols \<noteq> None) entries)"
  by (induction entries) (auto simp: resolved_def split: option.splits)

lemma aliases_distinct: "distinct (concat (map snd column_mappings))"
  by code_simp

lemma canonical_distinct: "distinct (map fst column_mappings)"
  by code_simp

lemma resolve_columns_eq:
  "resolve_columns cols =
     (map fst (resolved cols column_mappings), map_of (resolved cols column_mappings))"
proof -
  have "distinct (map fst (resolved cols column_mappings))"
    by (rule resolved_fst_distinct [OF aliases_distinct])
  then have "map_of (rev (resolved cols column_mappings)) = map_of (resolved cols column_mappings)"
    by (simp add: map_of_rev_distinct)
  then show ?thesis
    by (simp add: resolve_columns_def resolve_fold)
qed

lemma rename_resolved:
  assumes "distinct (map fst pairs)"
  shows "\<forall>p \<in> set pairs. (case map_of pairs (fst p) of None \<Rightarrow> fst p | Some n \<Rightarrow> n) = snd p"
proof
  fix p assume "p \<in> set pairs"
  with assms have "map_of pairs (fst p) = Some (snd p)"
    by (simp add: map_of_eq_Some_iff)
  then show "(case map_of pairs (fst p) of None \<Rightarrow> fst p | Some n \<Rightarrow> n) = snd p"
    by simp
qed

lemma lookup_renamed:
  assumes "distinct (map snd pairs)" and "(col, std) \<in> set pairs"
  shows "map_of (zip (map snd pairs) (map f (map fst pairs))) std = Some (f col)"
  using assms by (induction pairs) (auto simp: rev_image_eqI)

lemma resolved_snd_distinct: "distinct (map snd (resolved cols column_mappings))"
  by (simp add: resolved_snd distinct_map_filter canonical_distinct)

lemma resolved_mem:
  assumes "entry \<in> set entries" and "first_present (snd entry) cols = Some col"
  shows "(col, fst entry) \<in> set (resolved cols entries)"
  using assms by (auto simp: resolved_def intro!: bexI [of _ entry])

lemma canonical_columns_resolved: "canonical_columns cols = map snd (resolved cols column_mappings)"
  by (simp add: canonical_columns_def resolved_snd)

lemma analyze_nonempty:
  assumes "\<not> df_empty df" and "canonical_columns (columns df) \<noteq> []"
  shows "analyze_provider_metrics df =
     \<lparr>columns = canonical_columns (columns df),
      rows = map (\<lambda>r. map (cell_at (columns df) r) (map fst (resolved (columns df) column_mappings)))
               (rows df)\<rparr>"
proof -
  let ?pairs = "resolved (columns df) column_mappings"
  have d: "distinct (map fst ?pairs)"
    by (rule resolved_fst_distinct [OF aliases_distinct])
  from assms(2) have ne: "map fst ?pairs \<noteq> []"
    by (simp add: canonical_columns_resolved)
  show ?thesis
    using assms(1) ne
    by (simp add: analyze_provider_metrics_def resolve_columns_eq Let_def rename_columns_def
        select_columns_def rename_resolved [OF d] canonical_columns_resolved)
qed

text \<open>
  C4 (amended). On a table that is not empty and has a column for at least one canonical
  field: the output columns are the canonical names of the fields that have an alias among
  the input columns, each holding the data of the first alias of its candidate list that is
  an input column; no row is lost; and a name that is not canonical is not an output
  column. When no field has an alias among the columns, the output is the input's header
  without rows.
\<close>

theorem standardize_binds_first_alias:
  assumes "\<not> df_empty df"
  shows "(canonical_columns (columns df) \<noteq> [] \<longrightarrow>
            columns (analyze_provider_metrics df) = canonical_columns (columns df) \<and>
            length (rows (analyze_provider_metrics df)) = length (rows df) \<and>
            (\<forall>entry \<in> set column_mappings. \<forall>col.
               first_present (snd entry) (columns df) = Some col \<longrightarrow>
               col_values (analyze_provider_metrics df) (fst entry) = col_values df col) \<and>
            (\<forall>c. c \<notin> set (map fst column_mappings) \<longrightarrow>
               c \<notin> set (columns (analyze_provider_metrics df)))) \<and>
         (canonical_columns (columns df) = [] \<longrightarrow> analyze_provider_metrics df = head0 df)"
proof (intro conjI impI ballI allI)
  assume ne: "canonical_columns (columns df) \<noteq> []"
  note out = analyze_nonempty [OF assms ne]
  show "columns (analyze_provider_metrics df) = canonical_columns (columns df)"
    by (simp add: out)
  show "length (rows (analyze_provider_metrics df)) = length (rows df)"
    by (simp add: out)
  show "c \<notin> set (columns (analyze_provider_metrics df))"
    if "c \<notin> set (map fst column_mappings)" for c
    using that by (auto simp: out canonical_columns_def)
  show "col_values (analyze_provider_metrics df) (fst entry) = col_values df col"
    if "entry \<in> set column_mappings" and "first_present (snd entry) (columns df) = Some col"
    for entry col
  proof -
    let ?pairs = "resolved (columns df) column_mappings"
    from that have "(col, fst entry) \<in> set ?pairs" by (rule resolved_mem)
    then have "map_of (zip (map snd ?pairs) (map (cell_at (columns df) r) (map fst ?pairs))) (fst entry) =
        Some (cell_at (columns df) r col)" for r
      by (rule lookup_renamed [OF resolved_snd_distinct])
    then show ?thesis
      by (simp add: out col_values_def canonical_columns_resolved cell_at_def [of "map snd ?pairs"])
  qed
next
  assume "canonical_columns (columns df) = []"
  then have "map fst (resolved (columns df) column_mappings) = []"
    by (simp add: canonical_columns_resolved)
  with assms show "analyze_provider_metrics df = head0 df"
    by (simp add: analyze_provider_metrics_def resolve_columns_eq Let_def)
qed

theorem standardize_binds_first_alias_witness:
  "columns (analyze_provider_metrics alias_table) = [''provider_id'', ''provider_type''] \<and>
   canonical_columns (columns alias_table) = [''provider_id'', ''provider_type''] \<and>
   length (rows (analyze_provider_metrics alias_table)) = 2 \<and>
   first_present [''Rndrng_Prvdr_NPI'', ''NPI'', ''Provider_NPI''] (columns alias_table) =
     Some ''Rndrng_Prvdr_NPI'' \<and>
   col_values (analyze_provider_metrics alias_table) ''provider_id'' = [Num 21, Num 22] \<and>
   col_values alias_table ''Rndrng_Prvdr_NPI'' = [Num 21, Num 22] \<and>
   ''Notes'' \<notin> set (columns (analyze_provider_metrics alias_table)) \<and>
   canonical_columns (columns unknown_table) = [] \<and>
   analyze_provider_metrics unknown_table = \<lparr>columns = [''Foo''], rows = []\<rparr>"
proof -
  have ne: "\<not> df_empty alias_table" "\<not> df_empty unknown_table" by code_simp+
  have cc: "canonical_columns (columns alias_table) = [''provider_id'', ''provider_type'']"
    by code_simp
  have e: "(''provider_id'', [''Rndrng_Prvdr_NPI'', ''NPI'', ''Provider_NPI'']) \<in> set column_mappings"
    by code_simp
  have fp: "first_present [''Rndrng_Prvdr_NPI'', ''NPI'', ''Provider_NPI''] (columns alias_table) =
      Some ''Rndrng_Prvdr_NPI''" by code_simp
  have v: "col_values alias_table ''Rndrng_Prvdr_NPI'' = [Num 21, Num 22]" by code_simp
  have n: "''Notes'' \<notin> set (map fst column_mappings)" by code_simp
  have cu: "canonical_columns (columns unknown_table) = []" by code_simp
  have h: "head0 unknown_table = \<lparr>columns = [''Foo''], rows = []\<rparr>" by code_simp
  have l: "length (rows alias_table) = 2" by code_simp
  from cc have ne2: "canonical_columns (columns alias_table) \<noteq> []" by simp
  note t = standardize_binds_first_alias [OF ne(1)]
  from t ne2
  have a0: "columns (analyze_provider_metrics alias_table) = canonical_columns (columns alias_table)"
    by blast
  from t ne2
  have b: "length (rows (analyze_provider_metrics alias_table)) = length (rows alias_table)"
    by blast
  from t ne2
  have c: "\<forall>entry \<in> set column_mappings. \<forall>col.
               first_present (snd entry) (columns alias_table) = Some col \<longrightarrow>
               col_values (analyze_provider_metrics alias_table) (fst entry) = col_values alias_table col"
    by blast
  from t ne2
  have d: "\<forall>c. c \<notin> set (map fst column_mappings) \<longrightarrow>
               c \<notin> set (columns (analyze_provider_metrics alias_table))"
    by blast
  from c e fp have "col_values (analyze_provider_metrics alias_table) ''provider_id'' =
      col_values alias_table ''Rndrng_Prvdr_NPI''" by fastforce
  moreover from d n have "''Notes'' \<notin> set (columns (analyze_provider_metrics alias_table))" by blast
  moreover from standardize_binds_first_alias [OF ne(2)] cu h
  have "analyze_provider_metrics unknown_table = \<lparr>columns = [''Foo''], rows = []\<rparr>" by simp
  ultimately show ?thesis using a0 b cc fp v cu l by simp
qed

text \<open>
  C4 as stated fails on a table none of whose columns is an alias: the column \<^verbatim>\<open>Foo\<close>
  is in no alias list and is still a column of the output.
\<close>

theorem unmatched_column_kept_counterexample:
  "''Foo'' \<in> set (columns unknown_table) \<and>
   ''Foo'' \<notin> set (concat (map snd column_mappings)) \<and>
   ''Foo'' \<in> set (columns (analyze_provider_metrics unknown_table))"
  by code_simp

section \<open>Properties of the missing-column paths\<close>

text \<open>
  C5 (amended). Without a state column \<open>filter_upstate_ny_providers\<close> returns the input's
  header without rows; without the \<^verbatim>\<open>provider_type\<close> column
  \<open>get_specialty_distribution\<close> returns the table with no column and no row. Neither path
  holds an operation that can raise.
\<close>

theorem missing_column_empty_result:
  "(first_present possible_state_cols (columns df) = None \<longrightarrow>
      filter_upstate_ny_providers fmt df = \<lparr>columns = columns df, rows = []\<rparr>) \<and>
   (''provider_type'' \<notin> set (columns df) \<longrightarrow>
      get_specialty_distribution df = \<lparr>columns = [], rows = []\<rparr>)"
  by (simp add: filter_upstate_ny_providers_def head0_def get_specialty_distribution_def empty_df_def)

theorem missing_column_empty_result_witness:
  "first_present possible_state_cols (columns alias_table) = None \<and>
   filter_upstate_ny_providers fmt_digits alias_table =
     \<lparr>columns = [''NPI'', ''Rndrng_Prvdr_NPI'', ''Notes'', ''Specialty''], rows = []\<rparr> \<and>
   ''provider_type'' \<notin> set (columns alias_table) \<and>
   get_specialty_distribution alias_table = \<lparr>columns = [], rows = []\<rparr>"
proof -
  have s: "first_present possible_state_cols (columns alias_table) = None" by code_simp
  have p: "''provider_type'' \<notin> set (columns alias_table)" by code_simp
  have c: "columns alias_table = [''NPI'', ''Rndrng_Prvdr_NPI'', ''Notes'', ''Specialty'']"
    by code_simp
  from missing_column_empty_result [of alias_table fmt_digits] s p c show ?thesis
    by simp
qed

text \<open>
  C5 as stated fails for the aggregate: its result without the \<^verbatim>\<open>provider_type\<close>
  column has neither the columns of its regular result nor those of its input.
\<close>

theorem aggregate_shape_counterexample:
  "''provider_type'' \<notin> set (columns alias_table) \<and>
   columns (get_specialty_distribution alias_table) \<noteq> [''Specialty'', ''Count''] \<and>
   columns (get_specialty_distribution alias_table) \<noteq> columns alias_table \<and>
   columns (get_specialty_distribution (analyze_provider_metrics alias_table)) = [''Specialty'', ''Count'']"
  by code_simp

text \<open>
  The aggregate on the provider-service table raises when the table has the provider-type
  column and no identifier column.
\<close>

lemma specialty_from_services_key_error:
  "get_specialty_distribution_from_services \<lparr>columns = [''Rndrng_Prvdr_Type''], rows = [[Str ''Urology'']]\<rparr> =
     Inl (KeyError ''Rndrng_NPI'')"
  by code_simp

section \<open>Properties of the saved results\<close>

lemma path_join_inject: "path_join d a = path_join d b \<longleftrightarrow> a = b"
  by (simp add: path_join_def)

lemma write_csv_Inr:
  "write_csv w p bytes = Inr w' \<longleftrightarrow>
     can_write w p \<and> w' = w\<lparr>files := (files w)(p \<mapsto> bytes), written := written w @ [p]\<rparr>"
  by (auto simp: write_csv_def open_write_def can_write_def)

lemma can_write_cong: "dirs w' = dirs w \<Longrightarrow> can_write w' p = can_write w p"
  by (simp add: can_write_def dir_exists_def)

lemma save_step_Inr:
  assumes "save_step to_csv w item = Inr w'"
  shows "files w' = files w ++ map_of (rev (loop_writes to_csv [item])) \<and>
         written w' = written w @ map fst (loop_writes to_csv [item]) \<and>
         dirs w' = dirs w \<and> fetched w' = fetched w \<and>
         (\<forall>pb \<in> set (loop_writes to_csv [item]). can_write w (fst pb))"
  using assms
  by (cases item) (auto simp: save_step_def loop_writes_def write_csv_Inr split: result.splits if_splits)

lemma save_step_returns:
  assumes "\<forall>pb \<in> set (loop_writes to_csv [item]). can_write w (fst pb)"
  shows "\<exists>w'. save_step to_csv w item = Inr w'"
  using assms
  by (cases item) (auto simp: save_step_def loop_writes_def write_csv_Inr split: result.splits)

lemma loop_writes_Cons:
  "loop_writes to_csv (item # results) = loop_writes to_csv [item] @ loop_writes to_csv results"
  by (simp add: loop_writes_def)

lemma save_loop_Inr:
  assumes "save_loop to_csv w results = Inr w'"
  shows "files w' = files w ++ map_of (rev (loop_writes to_csv results)) \<and>
         written w' = written w @ map fst (loop_writes to_csv results) \<and>
         dirs w' = dirs w \<and> fetched w' = fetched w \<and>
         (\<forall>pb \<in> set (loop_writes to_csv results). can_write w (fst pb))"
  using assms
proof (induction results arbitrary: w)
  case Nil
  then show ?case by (simp add: loop_writes_def)
next
  case (Cons item results)
  from Cons.prems obtain w1 where s: "save_step to_csv w item = Inr w1"
    and r: "save_loop to_csv w1 results = Inr w'"
    by (auto split: sum.splits)
  note a = save_step_Inr [OF s] and b = Cons.IH [OF r]
  from a have d: "dirs w1 = dirs w" by simp
  have f: "files w' = files w ++ map_of (rev (loop_writes to_csv (item # results)))"
    using a b by (simp add: loop_writes_Cons [of to_csv item results])
  have wr: "written w' = written w @ map fst (loop_writes to_csv (item # results))"
    using a b by (simp add: loop_writes_Cons [of to_csv item results])
  have c: "\<forall>pb \<in> set (loop_writes to_csv (item # results)). can_write w (fst pb)"
    using a b by (auto simp: loop_writes_Cons [of to_csv item results] can_write_cong [OF d])
  from a b f wr c show ?case by simp
qed

lemma save_loop_returns:
  assumes "\<forall>pb \<in> set (loop_writes to_csv results). can_write w (fst pb)"
  shows "\<exists>w'. save_loop to_csv w results = Inr w'"
  using assms
proof (induction results arbitrary: w)
  case Nil
  then show ?case by simp
next
  case (Cons item results)
  from Cons.prems have "\<forall>pb \<in> set (loop_writes to_csv [item]). can_write w (fst pb)"
    by (simp add: loop_writes_Cons [of to_csv item results])
  then obtain w1 where s: "save_step to_csv w item = Inr w1"
    using save_step_returns by blast
  from save_step_Inr [OF s] have d: "dirs w1 = dirs w" by simp
  from Cons.prems have "\<forall>pb \<in> set (loop_writes to_csv results). can_write w1 (fst pb)"
    by (simp add: loop_writes_Cons [of to_csv item results] can_write_cong [OF d])
  from Cons.IH [OF this] s show ?case by simp
qed

lemma save_results_Inr:
  assumes "save_results to_csv now results w = Inr w'"
  shows "files w' = (files w ++ map_of (rev (loop_writes to_csv results)))
                      (summary_path \<mapsto> to_csv (summary_df now results)) \<and>
         written w' = written w @ map fst (loop_writes to_csv results) @ [summary_path] \<and>
         dirs w' = dirs w \<and> fetched w' = fetched w \<and>
         (\<forall>pb \<in> set (loop_writes to_csv results). can_write w (fst pb)) \<and> can_write w summary_path"
proof -
  from assms obtain w1 where l: "save_loop to_csv w results = Inr w1"
    and s: "write_csv w1 summary_path (to_csv (summary_df now results)) = Inr w'"
    by (auto simp: save_results_def split: sum.splits)
  note a = save_loop_Inr [OF l]
  from a have d: "dirs w1 = dirs w" by simp
  from s a show ?thesis
    by (simp add: write_csv_Inr can_write_cong [OF d])
qed

lemma save_results_returns:
  assumes "\<forall>pb \<in> set (loop_writes to_csv results). can_write w (fst pb)" and "can_write w summary_path"
  shows "\<exists>w'. save_results to_csv now results w = Inr w'"
proof -
  from save_loop_returns [OF assms(1)] obtain w1 where l: "save_loop to_csv w results = Inr w1" ..
  from save_loop_Inr [OF l] have d: "dirs w1 = dirs w" by simp
  from assms(2) l show ?thesis
    by (simp add: save_results_def write_csv_Inr can_write_cong [OF d])
qed

lemma count_key_inject: "a @ ''_count'' = b @ ''_count'' \<longleftrightarrow> a = b"
  by simp

lemma map_of_count_step:
  "map_of (count_step summary item) =
     (case snd item of
        Frame df \<Rightarrow> (map_of summary)(fst item @ ''_count'' \<mapsto> Num (of_nat (length (rows df))))
      | Other \<Rightarrow> map_of summary)"
  by (simp add: count_step_def update_conv' split: result.splits)

lemma count_loop_lookup:
  assumes "distinct (map fst results)" and "(name, Frame df) \<in> set results"
  shows "map_of (foldl count_step summary results) (name @ ''_count'') =
     Some (Num (of_nat (length (rows df))))"
  using assms
proof (induction results rule: rev_induct)
  case Nil
  then show ?case by simp
next
  case (snoc item results)
  show ?case
  proof (cases "item = (name, Frame df)")
    case True
    then show ?thesis
      by (simp add: map_of_count_step)
  next
    case False
    with snoc.prems have mem: "(name, Frame df) \<in> set results" by auto
    with snoc.prems have "fst item \<noteq> name" by (auto simp: rev_image_eqI)
    moreover from snoc.prems mem
    have "map_of (foldl count_step summary results) (name @ ''_count'') =
        Some (Num (of_nat (length (rows df))))"
      by (intro snoc.IH) simp_all
    ultimately show ?thesis
      by (simp add: map_of_count_step split: result.splits)
  qed
qed

lemma loop_writes_paths:
  "fst ` set (loop_writes to_csv results) =
     {path_join results_dir (name @ ''.csv'') | name df. (name, Frame df) \<in> set results \<and> \<not> df_empty df}"
proof (induction results)
  case Nil
  then show ?case by (simp add: loop_writes_def)
next
  case (Cons item results)
  show ?case
  proof (cases item)
    case (Pair name v)
    show ?thesis
      unfolding loop_writes_Cons [of to_csv item results] set_append image_Un Cons.IH
      by (cases v) (auto simp: loop_writes_def Pair)
  qed
qed

lemma loop_writes_lookup:
  assumes "distinct (map fst results)" and "(name, Frame df) \<in> set results" and "\<not> df_empty df"
  shows "map_of (rev (loop_writes to_csv results)) (path_join results_dir (name @ ''.csv'')) =
           Some (to_csv df)"
  using assms
proof (induction results rule: rev_induct)
  case Nil
  then show ?case by simp
next
  case (snoc item results)
  have app: "loop_writes to_csv (results @ [item]) = loop_writes to_csv results @ loop_writes to_csv [item]"
    by (simp add: loop_writes_def)
  show ?case
  proof (cases "item = (name, Frame df)")
    case True
    with snoc.prems(3) show ?thesis
      by (simp add: app) (simp add: loop_writes_def)
  next
    case False
    with snoc.prems have mem: "(name, Frame df) \<in> set results" by auto
    with snoc.prems have ne: "fst item \<noteq> name" by (auto simp: rev_image_eqI)
    from snoc.prems mem
    have ih: "map_of (rev (loop_writes to_csv results)) (path_join results_dir (name @ ''.csv'')) =
        Some (to_csv df)"
      by (intro snoc.IH) simp_all
    have "map_of (rev (loop_writes to_csv [item])) (path_join results_dir (name @ ''.csv'')) = None"
      using ne by (cases item) (auto simp: loop_writes_def path_join_def split: result.splits)
    with ih show ?thesis
      by (simp add: app map_add_def split: option.splits)
  qed
qed

lemma dirname_plain:
  assumes "CHR ''/'' \<notin> set name"
  shows "dirname (path_join d (name @ ''.csv'')) = d"
proof -
  have "rev (path_join d (name @ ''.csv'')) = (rev ''.csv'' @ rev name) @ CHR ''/'' # rev d"
    by (simp add: path_join_def)
  moreover have "\<forall>c \<in> set (rev ''.csv'' @ rev name). c \<noteq> CHR ''/''"
    using assms by auto
  ultimately have "dropWhile (\<lambda>c. c \<noteq> CHR ''/'') (rev (path_join d (name @ ''.csv''))) = CHR ''/'' # rev d"
    by (simp only: dropWhile_append3 [of "\<lambda>c. c \<noteq> CHR ''/''"] dropWhile_append2) simp
  then show ?thesis by (simp add: dirname_def)
qed

lemma summary_not_result:
  "name \<noteq> ''analysis_summary'' \<Longrightarrow> path_join results_dir (name @ ''.csv'') \<noteq> summary_path"
  by (simp add: summary_path_def path_join_def)

text \<open>
  C10 (amended). Let \<^verbatim>\<open>save_results\<close> return on a dictionary whose names are plain
  file names. For every result whose name is not \<^verbatim>\<open>analysis_summary\<close> the file
  \<^verbatim>\<open><result_name>.csv\<close> lies in the results directory, is written exactly when the
  value is a DataFrame that is not empty, and then holds the serialized table; for an empty
  table or a value that is no table the file is left as it was. The file
  \<^verbatim>\<open>analysis_summary.csv\<close> is written and holds the summary table, which has under
  \<^verbatim>\<open><result_name>_count\<close> the number of rows of every DataFrame, the empty ones
  included. The dictionary has each key once.
\<close>

theorem save_results_files:
  assumes "distinct (map fst results)" and "plain_names results"
    and "save_results to_csv now results w = Inr w'"
  shows "(\<forall>item \<in> set results. fst item \<noteq> ''analysis_summary'' \<longrightarrow>
            dirname (path_join results_dir (fst item @ ''.csv'')) = results_dir \<and>
            (path_join results_dir (fst item @ ''.csv'') \<in> set (new_writes w w') \<longleftrightarrow>
               (\<exists>df. snd item = Frame df \<and> \<not> df_empty df)) \<and>
            (\<forall>df. snd item = Frame df \<and> \<not> df_empty df \<longrightarrow>
               files w' (path_join results_dir (fst item @ ''.csv'')) = Some (to_csv df)) \<and>
            ((\<forall>df. snd item = Frame df \<longrightarrow> df_empty df) \<longrightarrow>
               files w' (path_join results_dir (fst item @ ''.csv'')) =
               files w (path_join results_dir (fst item @ ''.csv'')))) \<and>
         summary_path \<in> set (new_writes w w') \<and>
         files w' summary_path = Some (to_csv (summary_df now results)) \<and>
         (\<forall>item \<in> set results. \<forall>df. snd item = Frame df \<longrightarrow>
            cell_at (columns (summary_df now results)) (hd (rows (summary_df now results)))
              (fst item @ ''_count'') = Num (of_nat (length (rows df))))"
proof (intro conjI ballI allI impI)
  note s = save_results_Inr [OF assms(3)]
  from s have fl: "files w' = (files w ++ map_of (rev (loop_writes to_csv results)))
                      (summary_path \<mapsto> to_csv (summary_df now results))"
    and nw: "new_writes w w' = map fst (loop_writes to_csv results) @ [summary_path]"
    by (simp_all add: new_writes_def)
  show "summary_path \<in> set (new_writes w w')" by (simp add: nw)
  show "files w' summary_path = Some (to_csv (summary_df now results))" by (simp add: fl)
  show "cell_at (columns (summary_df now results)) (hd (rows (summary_df now results)))
          (fst item @ ''_count'') = Num (of_nat (length (rows df)))"
    if "item \<in> set results" and "snd item = Frame df" for item df
  proof -
    have "(fst item, snd item) = item" by simp
    with that have "(fst item, Frame df) \<in> set results" by metis
    from count_loop_lookup [OF assms(1) this]
    show ?thesis
      by (simp add: summary_df_def cell_at_def zip_map_fst_snd run_summary_def)
  qed
  fix item
  assume item: "item \<in> set results" and n: "fst item \<noteq> ''analysis_summary''"
  let ?p = "path_join results_dir (fst item @ ''.csv'')"
  from n have ps: "?p \<noteq> summary_path" by (rule summary_not_result)
  from assms(2) item have "CHR ''/'' \<notin> set (fst item)"
    by (auto simp: plain_names_def list_all_iff)
  then show "dirname ?p = results_dir" by (rule dirname_plain)
  have pair: "(fst item, snd item) = item" by simp
  have written_iff: "?p \<in> fst ` set (loop_writes to_csv results) \<longleftrightarrow>
      (\<exists>df. snd item = Frame df \<and> \<not> df_empty df)"
  proof
    assume "?p \<in> fst ` set (loop_writes to_csv results)"
    then obtain name df where eq: "?p = path_join results_dir (name @ ''.csv'')"
      and mem: "(name, Frame df) \<in> set results" and ne: "\<not> df_empty df"
      unfolding loop_writes_paths by blast
    from eq have "fst item = name" by (simp add: path_join_def)
    with pair item mem assms(1) have "item = (name, Frame df)"
      by (metis eq_key_imp_eq_value)
    with ne show "\<exists>df. snd item = Frame df \<and> \<not> df_empty df" by simp
  next
    assume "\<exists>df. snd item = Frame df \<and> \<not> df_empty df"
    then obtain df where "snd item = Frame df" "\<not> df_empty df" by blast
    with pair item have "(fst item, Frame df) \<in> set results \<and> \<not> df_empty df" by metis
    then show "?p \<in> fst ` set (loop_writes to_csv results)"
      unfolding loop_writes_paths by blast
  qed
  show "?p \<in> set (new_writes w w') \<longleftrightarrow> (\<exists>df. snd item = Frame df \<and> \<not> df_empty df)"
    using written_iff ps by (simp add: nw)
  show "files w' ?p = Some (to_csv df)" if "snd item = Frame df \<and> \<not> df_empty df" for df
  proof -
    from that pair item have "(fst item, Frame df) \<in> set results" by metis
    from loop_writes_lookup [OF assms(1) this] that ps show ?thesis
      by (simp add: fl map_add_def)
  qed
  show "files w' ?p = files w ?p" if "\<forall>df. snd item = Frame df \<longrightarrow> df_empty df"
  proof -
    from that written_iff have "?p \<notin> fst ` set (rev (loop_writes to_csv results))" by auto
    then have "map_of (rev (loop_writes to_csv results)) ?p = None"
      by (rule map_of_eq_None_iff [THEN iffD2])
    with ps show ?thesis by (simp add: fl map_add_def)
  qed
qed

text \<open>
  \<^verbatim>\<open>save_results\<close> returns when the results directory exists and no path it writes is
  a directory.
\<close>

lemma save_results_in_results_dir:
  assumes "plain_names results" and "results_dir \<in> set (dirs w)"
    and "\<forall>item \<in> set results. path_join results_dir (fst item @ ''.csv'') \<notin> set (dirs w)"
    and "summary_path \<notin> set (dirs w)"
  shows "\<exists>w'. save_results to_csv now results w = Inr w'"
proof (rule save_results_returns)
  have "dirname summary_path = results_dir"
    unfolding summary_path_def using dirname_plain [of "''analysis_summary''" results_dir] by simp
  with assms(2,4) show "can_write w summary_path"
    by (simp add: can_write_def dir_exists_def)
  show "\<forall>pb \<in> set (loop_writes to_csv results). can_write w (fst pb)"
  proof
    fix pb assume "pb \<in> set (loop_writes to_csv results)"
    then have "fst pb \<in> fst ` set (loop_writes to_csv results)" by simp
    then obtain name df where eq: "fst pb = path_join results_dir (name @ ''.csv'')"
      and mem: "(name, Frame df) \<in> set results"
      unfolding loop_writes_paths by blast
    from assms(1) mem have "CHR ''/'' \<notin> set name"
      by (auto simp: plain_names_def list_all_iff)
    then have "dirname (fst pb) = results_dir" unfolding eq by (rule dirname_plain)
    moreover from assms(3) mem have "fst pb \<notin> set (dirs w)" unfolding eq by force
    ultimately show "can_write w (fst pb)"
      using assms(2) by (simp add: can_write_def dir_exists_def)
  qed
qed

theorem save_results_files_witness:
  "distinct (map fst some_results) \<and> plain_names some_results \<and>
   returns (save_results plain_csv ''2024-05-01 10:00:00'' some_results fresh_world) \<and>
   writes_after fresh_world (save_results plain_csv ''2024-05-01 10:00:00'' some_results fresh_world) =
     [''results/specialty_distribution.csv'', ''results/analysis_summary.csv''] \<and>
   files_after (save_results plain_csv ''2024-05-01 10:00:00'' some_results fresh_world)
     ''results/specialty_distribution.csv'' = Some ''Specialty,Count\<newline>Urology,2\<newline>Neurology,1\<newline>'' \<and>
   files_after (save_results plain_csv ''2024-05-01 10:00:00'' some_results fresh_world)
     ''results/service_volume.csv'' = None \<and>
   files_after (save_results plain_csv ''2024-05-01 10:00:00'' some_results fresh_world)
     ''results/payment_stats.csv'' = None \<and>
   files_after (save_results plain_csv ''2024-05-01 10:00:00'' some_results fresh_world)
     ''results/analysis_summary.csv'' =
       Some ''timestamp,dataset,specialty_distribution_count,service_volume_count\<newline>2024-05-01 10:00:00,Provider,2,0\<newline>''"
proof -
  let ?now = "''2024-05-01 10:00:00''"
  let ?run = "save_results plain_csv ?now some_results fresh_world"
  let ?t = "\<lparr>columns = [''Specialty'', ''Count''],
            rows = [[Str ''Urology'', Num 2], [Str ''Neurology'', Num 1]]\<rparr>"
  have d: "distinct (map fst some_results)" by code_simp
  have pn: "plain_names some_results" by code_simp
  have ret: "returns ?run" by code_simp
  then obtain w' where run: "?run = Inr w'"
    by (auto simp: returns_def split: sum.splits)
  have wr: "writes_after fresh_world ?run =
      [''results/specialty_distribution.csv'', ''results/analysis_summary.csv'']" by code_simp
  have i1: "(''specialty_distribution'', Frame ?t) \<in> set some_results"
    and i2: "(''service_volume'', Frame empty_df) \<in> set some_results"
    and i3: "(''payment_stats'', Other) \<in> set some_results"
    by (simp_all add: some_results_def)
  have n1: "\<not> df_empty ?t" and n2: "df_empty empty_df" by code_simp+
  have c1: "plain_csv ?t = ''Specialty,Count\<newline>Urology,2\<newline>Neurology,1\<newline>''" by code_simp
  have c2: "plain_csv (summary_df ?now some_results) =
      ''timestamp,dataset,specialty_distribution_count,service_volume_count\<newline>2024-05-01 10:00:00,Provider,2,0\<newline>''"
    by code_simp
  have f0: "files fresh_world p = None" for p by (simp add: fresh_world_def)
  note t = save_results_files [OF d pn run]
  from t [THEN conjunct1, rule_format, OF i1] n1
  have a1: "files w' ''results/specialty_distribution.csv'' = Some (plain_csv ?t)"
    by (simp add: path_join_def results_dir_def)
  from t [THEN conjunct1, rule_format, OF i2] n2
  have a2: "files w' ''results/service_volume.csv'' = None"
    by (simp add: path_join_def results_dir_def f0)
  from t [THEN conjunct1, rule_format, OF i3]
  have a3: "files w' ''results/payment_stats.csv'' = None"
    by (simp add: path_join_def results_dir_def f0)
  from t have a4: "files w' ''results/analysis_summary.csv'' = Some (plain_csv (summary_df ?now some_results))"
    by (simp add: summary_path_def path_join_def results_dir_def)
  from a1 a2 a3 a4 c1 c2 have
    "files_after ?run ''results/specialty_distribution.csv'' = Some ''Specialty,Count\<newline>Urology,2\<newline>Neurology,1\<newline>''"
    "files_after ?run ''results/service_volume.csv'' = None"
    "files_after ?run ''results/payment_stats.csv'' = None"
    "files_after ?run ''results/analysis_summary.csv'' =
       Some ''timestamp,dataset,specialty_distribution_count,service_volume_count\<newline>2024-05-01 10:00:00,Provider,2,0\<newline>''"
    by (simp_all add: files_after_def run)
  with d pn ret wr show ?thesis by simp
qed

text \<open>
  C10 as stated fails for a result named \<^verbatim>\<open>analysis_summary\<close>: its value is an empty
  table, and the file \<^verbatim>\<open>analysis_summary.csv\<close> is written all the same, with the
  run summary.
\<close>

theorem summary_name_counterexample:
  "df_empty empty_df \<and>
   returns (save_results plain_csv ''2024-05-01 10:00:00'' summary_named_results fresh_world) \<and>
   writes_after fresh_world (save_results plain_csv ''2024-05-01 10:00:00'' summary_named_results fresh_world) =
     [''results/analysis_summary.csv''] \<and>
   files_after (save_results plain_csv ''2024-05-01 10:00:00'' summary_named_results fresh_world)
     ''results/analysis_summary.csv'' =
       Some ''timestamp,dataset,analysis_summary_count\<newline>2024-05-01 10:00:00,Provider,0\<newline>''"
  by code_simp

section \<open>Properties of the fetch stage\<close>

lemma results_not_data: "path_join results_dir x \<noteq> path_join ''data'' y"
  by (simp add: path_join_def results_dir_def)

lemma loop_paths_in_results:
  "p \<in> fst ` set (loop_writes to_csv results) \<Longrightarrow> \<exists>x. p = path_join results_dir x"
  unfolding loop_writes_paths by blast

lemma data_file_kept:
  assumes "save_results to_csv now results w = Inr w'"
  shows "files w' (path_join ''data'' y) = files w (path_join ''data'' y)"
proof -
  have "path_join ''data'' y \<notin> fst ` set (rev (loop_writes to_csv results))"
  proof
    assume "path_join ''data'' y \<in> fst ` set (rev (loop_writes to_csv results))"
    then have "path_join ''data'' y \<in> fst ` set (loop_writes to_csv results)" by simp
    then obtain x where "path_join ''data'' y = path_join results_dir x"
      by (rule loop_paths_in_results [THEN exE])
    then show False using results_not_data [of x y] by simp
  qed
  then have "map_of (rev (loop_writes to_csv results)) (path_join ''data'' y) = None"
    by (rule map_of_eq_None_iff [THEN iffD2])
  moreover have "path_join ''data'' y \<noteq> summary_path"
    using results_not_data [of "''analysis_summary.csv''" y] by (simp add: summary_path_def)
  ultimately show ?thesis
    using save_results_Inr [OF assms] by (simp add: map_add_def)
qed

lemma resave:
  assumes "save_results to_csv now1 results w = Inr w1"
  shows "\<exists>w2. save_results to_csv now2 results w1 = Inr w2 \<and> fetched w2 = fetched w \<and>
           dirs w2 = dirs w \<and> (\<forall>p. p \<noteq> summary_path \<longrightarrow> files w2 p = files w1 p)"
proof -
  note a = save_results_Inr [OF assms]
  from a have d: "dirs w1 = dirs w" by simp
  from a have "\<forall>pb \<in> set (loop_writes to_csv results). can_write w1 (fst pb)" "can_write w1 summary_path"
    by (simp_all add: can_write_cong [OF d])
  from save_results_returns [OF this] obtain w2 where
    w2: "save_results to_csv now2 results w1 = Inr w2" ..
  note b = save_results_Inr [OF w2]
  have "files w2 p = files w1 p" if "p \<noteq> summary_path" for p
    using that a b by (simp add: map_add_def split: option.splits)
  with w2 a b show ?thesis by simp
qed

lemma download_file_cached:
  assumes "path_exists w (path_join data_dir name)"
  shows "download_file net data_dir w url name = Inr (path_join data_dir name, w)"
  using assms by (simp add: download_file_def)

text \<open>
  Without a cached file \<open>get_medicare_providers\<close> raises: the download goes to the path
  \<^verbatim>\<open>data/data/medicare_providers.csv\<close>, and the file that is read afterwards is
  still missing.
\<close>

lemma uncached_raises:
  assumes "\<not> path_exists w (path_join d ''medicare_providers.csv'')"
  shows "\<exists>e. get_medicare_providers lib d w = Inl e"
proof -
  let ?c = "path_join d ''medicare_providers.csv''"
  have ne: "path_join d ?c \<noteq> ?c" by (simp add: path_join_def)
  from assms have none: "files w ?c = None" "?c \<notin> set (dirs w)"
    by (simp_all add: path_exists_def)
  have "\<exists>e. read_csv lib w' ?c = Inl e"
    if "download_file (http_get lib) d w provider_dataset_url ?c = Inr (lp, w')" for lp w'
  proof -
    from that ne none have "files w' ?c = None \<and> ?c \<notin> set (dirs w')"
      by (auto simp: download_file_def Let_def open_write_def split: if_splits sum.splits)
    then show ?thesis by (simp add: read_csv_def read_bytes_def)
  qed
  then show ?thesis
    using assms
    by (cases "download_file (http_get lib) d w provider_dataset_url ?c")
       (auto simp: get_medicare_providers_def Let_def)
qed

lemma same_inputs_reads:
  assumes "same_inputs d w w'"
  shows "path_exists w' (service_file d) = path_exists w (service_file d)"
    and "read_csv lib w' (service_file d) = read_csv lib w (service_file d)"
    and "path_exists w' (path_join d ''medicare_providers.csv'') =
         path_exists w (path_join d ''medicare_providers.csv'')"
    and "read_csv lib w' (path_join d ''medicare_providers.csv'') =
         read_csv lib w (path_join d ''medicare_providers.csv'')"
  using assms by (simp_all add: same_inputs_def path_exists_def read_csv_def read_bytes_def)

lemma run_analysis_results:
  assumes "run_analysis lib d now1 w = Inr w1"
  shows "\<exists>results. save_results (render_csv lib) now1 results w = Inr w1 \<and>
     (\<forall>now w'. same_inputs d w w' \<longrightarrow>
        run_analysis lib d now w' = save_results (render_csv lib) now results w')"
proof (cases "path_exists w (service_file d)")
  case True
  with assms obtain t results where t: "read_csv lib w (service_file d) = Inr t"
    and r: "analyze_provider_service_data (float_ops lib) (fst t) (snd t) = Inr results"
    and s: "save_results (render_csv lib) now1 results w = Inr w1"
    by (auto simp: run_analysis_def split: sum.splits)
  have "run_analysis lib d now w' = save_results (render_csv lib) now results w'"
    if "same_inputs d w w'" for now w'
    using True t r by (simp add: run_analysis_def same_inputs_reads [OF that])
  with s show ?thesis by blast
next
  case False
  let ?c = "path_join d ''medicare_providers.csv''"
  have c: "path_exists w ?c"
  proof (rule ccontr)
    assume "\<not> path_exists w ?c"
    from uncached_raises [OF this, of lib] False assms show False
      by (auto simp: run_analysis_def)
  qed
  with False assms obtain t results where t: "read_csv lib w ?c = Inr t"
    and r: "analyze_provider_data lib (fst t) (snd t) = Inr results"
    and s: "save_results (render_csv lib) now1 results w = Inr w1"
    by (auto simp: run_analysis_def get_medicare_providers_def Let_def split: sum.splits)
  have "run_analysis lib d now w' = save_results (render_csv lib) now results w'"
    if "same_inputs d w w'" for now w'
    using False c t r
    by (simp add: run_analysis_def get_medicare_providers_def Let_def same_inputs_reads [OF that])
  with s show ?thesis by blast
qed

lemma mkdir_Inr:
  assumes "mkdir w d = Inr w'"
  shows "files w' = files w \<and> fetched w' = fetched w \<and> written w' = written w \<and>
         d \<in> set (dirs w') \<and> set (dirs w) \<subseteq> set (dirs w')"
  using assms by (auto simp: mkdir_def split: if_splits)

lemma new_fetcher_Inr:
  assumes "new_fetcher d w = Inr w'"
  shows "files w' = files w \<and> fetched w' = fetched w \<and> written w' = written w \<and>
         d \<in> set (dirs w') \<and> results_dir \<in> set (dirs w')"
proof -
  from assms obtain w0 where a: "mkdir w d = Inr w0" and b: "mkdir w0 results_dir = Inr w'"
    by (auto simp: new_fetcher_def split: sum.splits)
  from mkdir_Inr [OF a] mkdir_Inr [OF b] show ?thesis by auto
qed

lemma new_fetcher_again:
  assumes "d \<in> set (dirs w)" and "results_dir \<in> set (dirs w)"
  shows "new_fetcher d w = Inr w"
  using assms by (simp add: new_fetcher_def mkdir_def)

lemma fetch_stage_needs_file:
  assumes "fetch_stage lib now w = Inr w1"
  shows "files w (service_file ''data'') \<noteq> None \<or>
         files w (path_join ''data'' ''medicare_providers.csv'') \<noteq> None"
proof -
  let ?c = "path_join ''data'' ''medicare_providers.csv''"
  from assms obtain w0 where nf: "new_fetcher ''data'' w = Inr w0"
    and run: "run_analysis lib ''data'' now w0 = Inr w1"
    by (auto simp: fetch_stage_def split: sum.splits)
  from new_fetcher_Inr [OF nf] have f: "files w0 = files w" by simp
  show ?thesis
  proof (cases "path_exists w0 (service_file ''data'')")
    case True
    with run obtain t where "read_csv lib w0 (service_file ''data'') = Inr t"
      by (auto simp: run_analysis_def split: sum.splits)
    then have "files w0 (service_file ''data'') \<noteq> None"
      by (auto simp: read_csv_def read_bytes_def split: option.splits if_splits)
    with f show ?thesis by simp
  next
    case False
    have c: "path_exists w0 ?c"
    proof (rule ccontr)
      assume "\<not> path_exists w0 ?c"
      from uncached_raises [OF this, of lib] False run show False
        by (auto simp: run_analysis_def)
    qed
    with False run obtain t where "read_csv lib w0 ?c = Inr t"
      by (auto simp: run_analysis_def get_medicare_providers_def Let_def split: sum.splits)
    then have "files w0 ?c \<noteq> None"
      by (auto simp: read_csv_def read_bytes_def split: option.splits if_splits)
    with f show ?thesis by simp
  qed
qed

text \<open>
  C7. When the local file exists, \<open>download_file\<close> returns its path and leaves the state
  as it is: no request, no write. A run of the fetch stage that succeeds has found a local
  file (\<open>fetch_stage_needs_file\<close>) and makes no request; a second run on the state it
  leaves succeeds, makes no request and leaves every file of the results directory with
  the same bytes, the file of every summary table among them. The one file that it
  rewrites with other bytes is the run summary \<^verbatim>\<open>analysis_summary.csv\<close>, which records
  the time of the run.
\<close>

theorem fetch_stage_rerun:
  assumes "fetch_stage lib now1 w = Inr w1"
  shows "(\<forall>data_dir url name. path_exists w (path_join data_dir name) \<longrightarrow>
            download_file (http_get lib) data_dir w url name = Inr (path_join data_dir name, w)) \<and>
         fetched w1 = fetched w \<and>
         (\<exists>w2. fetch_stage lib now2 w1 = Inr w2 \<and>
               fetched w2 = fetched w \<and>
               (\<forall>p. p \<noteq> summary_path \<longrightarrow> files w2 p = files w1 p))"
proof -
  from assms obtain w0 where nf: "new_fetcher ''data'' w = Inr w0"
    and run: "run_analysis lib ''data'' now1 w0 = Inr w1"
    by (auto simp: fetch_stage_def split: sum.splits)
  note n = new_fetcher_Inr [OF nf]
  from run_analysis_results [OF run] obtain results where
    s1: "save_results (render_csv lib) now1 results w0 = Inr w1"
    and again: "\<And>now w'. same_inputs ''data'' w0 w' \<Longrightarrow>
        run_analysis lib ''data'' now w' = save_results (render_csv lib) now results w'"
    by blast
  note a = save_results_Inr [OF s1]
  have same: "same_inputs ''data'' w0 w1"
    using a data_file_kept [OF s1] by (simp add: same_inputs_def service_file_def)
  from a n have "new_fetcher ''data'' w1 = Inr w1"
    by (intro new_fetcher_again) simp_all
  then have f2: "fetch_stage lib now2 w1 = save_results (render_csv lib) now2 results w1"
    by (simp add: fetch_stage_def again [OF same])
  from resave [OF s1, of now2] obtain w2 where
    "save_results (render_csv lib) now2 results w1 = Inr w2" "fetched w2 = fetched w0"
    "\<forall>p. p \<noteq> summary_path \<longrightarrow> files w2 p = files w1 p"
    by blast
  with f2 a n show ?thesis
    by (simp add: download_file_cached)
qed

theorem fetch_stage_rerun_witness:
  "returns first_run \<and> fetched_after first_run = [] \<and>
   writes_after cached_world first_run =
     [''results/provider_metrics.csv'', ''results/specialty_distribution.csv'',
      ''results/service_volume.csv'', ''results/analysis_summary.csv''] \<and>
   returns second_run \<and> fetched_after second_run = [] \<and>
   files_after first_run ''results/provider_metrics.csv'' =
     Some ''provider_id,provider_last_name,provider_type,total_services\<newline>11,Smith,Family Practice,12\<newline>'' \<and>
   files_after second_run ''results/provider_metrics.csv'' =
     Some ''provider_id,provider_last_name,provider_type,total_services\<newline>11,Smith,Family Practice,12\<newline>'' \<and>
   files_after first_run ''results/specialty_distribution.csv'' =
     Some ''Specialty,Count\<newline>Family Practice,1\<newline>'' \<and>
   files_after second_run ''results/specialty_distribution.csv'' =
     Some ''Specialty,Count\<newline>Family Practice,1\<newline>'' \<and>
   files_after first_run ''results/service_volume.csv'' =
     Some ''Provider Last/Org Name,Specialty,Total Services\<newline>Smith,Family Practice,12\<newline>'' \<and>
   files_after second_run ''results/service_volume.csv'' =
     Some ''Provider Last/Org Name,Specialty,Total Services\<newline>Smith,Family Practice,12\<newline>''"
proof -
  let ?now1 = "''2024-05-01 10:00:00''" and ?now2 = "''2024-05-01 10:05:00''"
  have ret: "returns first_run" by code_simp
  then obtain w1 where run1: "fetch_stage offline_lib ?now1 cached_world = Inr w1"
    by (auto simp: returns_def first_run_def split: sum.splits)
  have wr: "writes_after cached_world first_run =
     [''results/provider_metrics.csv'', ''results/specialty_distribution.csv'',
      ''results/service_volume.csv'', ''results/analysis_summary.csv'']" by code_simp
  have f0: "fetched cached_world = []" by (simp add: cached_world_def)
  have m: "files_after first_run ''results/provider_metrics.csv'' =
     Some ''provider_id,provider_last_name,provider_type,total_services\<newline>11,Smith,Family Practice,12\<newline>''"
    by code_simp
  have s: "files_after first_run ''results/specialty_distribution.csv'' =
     Some ''Specialty,Count\<newline>Family Practice,1\<newline>''" by code_simp
  have v: "files_after first_run ''results/service_volume.csv'' =
     Some ''Provider Last/Org Name,Specialty,Total Services\<newline>Smith,Family Practice,12\<newline>''"
    by code_simp
  have p: "''results/provider_metrics.csv'' \<noteq> summary_path"
    "''results/specialty_distribution.csv'' \<noteq> summary_path"
    "''results/service_volume.csv'' \<noteq> summary_path"
    by (simp_all add: summary_path_def path_join_def results_dir_def)
  from fetch_stage_rerun [OF run1, of ?now2] obtain w2 where
    run2: "fetch_stage offline_lib ?now2 w1 = Inr w2"
    and f1: "fetched w1 = fetched cached_world" and f2: "fetched w2 = fetched cached_world"
    and same: "\<And>p. p \<noteq> summary_path \<Longrightarrow> files w2 p = files w1 p"
    by blast
  have r1: "first_run = Inr w1" by (simp add: first_run_def run1)
  have r2: "second_run = Inr w2" by (simp add: second_run_def and_then_def r1 run2)
  have after: "files_after second_run q = files_after first_run q" if "q \<noteq> summary_path" for q
    using same [OF that] by (simp add: files_after_def r1 r2)
  have "returns second_run" "fetched_after first_run = []" "fetched_after second_run = []"
    by (simp_all add: returns_def fetched_after_def r1 r2 f1 f2 f0)
  with ret wr m s v after [OF p(1)] after [OF p(2)] after [OF p(3)] show ?thesis
    by simp
qed

text \<open>
  The run summary of the two runs of the example: the same counts, another time.
\<close>

lemma run_summary_holds_time:
  "files_after first_run ''results/analysis_summary.csv'' =
     Some ''timestamp,dataset,provider_metrics_count,specialty_distribution_count,service_volume_count\<newline>2024-05-01 10:00:00,Provider,1,1,1\<newline>'' \<and>
   files_after second_run ''results/analysis_summary.csv'' =
     Some ''timestamp,dataset,provider_metrics_count,specialty_distribution_count,service_volume_count\<newline>2024-05-01 10:05:00,Provider,1,1,1\<newline>''"
  by code_simp

section \<open>Properties of the chart constructors\<close>

text \<open>
  C8 (amended). Every chart constructor of \<^verbatim>\<open>CMSDataVisualizer\<close>, applied to an
  empty table, returns \<^verbatim>\<open>None\<close> and does not raise.
\<close>

theorem empty_table_no_chart:
  assumes "df_empty df"
  shows "create_top_providers_chart df = Inr None \<and>
         create_correlation_heatmap df = Inr None \<and>
         create_specialty_distribution_chart df = Inr None \<and>
         create_top_services_chart df = Inr None \<and>
         create_provider_metrics_chart df = Inr None \<and>
         create_provider_performance_matrix df = Inr None \<and>
         create_specialty_benchmarking_chart df = Inr None \<and>
         create_quality_metrics_dashboard df = Inr None"
  using assms
  by (simp add: create_top_providers_chart_def create_correlation_heatmap_def
      create_specialty_distribution_chart_def create_top_services_chart_def
      create_provider_metrics_chart_def create_provider_performance_matrix_def
      create_specialty_benchmarking_chart_def create_quality_metrics_dashboard_def)

theorem empty_table_no_chart_witness:
  "df_empty header_only_services \<and>
   create_top_providers_chart header_only_services = Inr None \<and>
   create_correlation_heatmap header_only_services = Inr None \<and>
   create_specialty_distribution_chart header_only_services = Inr None \<and>
   create_top_services_chart header_only_services = Inr None \<and>
   create_provider_metrics_chart header_only_services = Inr None \<and>
   create_provider_performance_matrix header_only_services = Inr None \<and>
   create_specialty_benchmarking_chart header_only_services = Inr None \<and>
   create_quality_metrics_dashboard header_only_services = Inr None \<and>
   create_top_services_chart two_services =
     Inr (Some \<lparr>title = ''Top 15 Services by Volume'',
                traces = [Bar [Num 12, Num 50]
                            [Str ''Office visit, established patient'', Str ''Annual wellness visit'']]\<rparr>)"
proof -
  have e: "df_empty header_only_services" by code_simp
  have v: "create_top_services_chart two_services =
     Inr (Some \<lparr>title = ''Top 15 Services by Volume'',
                traces = [Bar [Num 12, Num 50]
                            [Str ''Office visit, established patient'', Str ''Annual wellness visit'']]\<rparr>)"
    by code_simp
  from empty_table_no_chart [OF e] e v show ?thesis by simp
qed

text \<open>
  C8 as stated fails for the simplified visualizer, whose constructors do not test for an
  empty table: on the header-only table \<^verbatim>\<open>create_services_chart\<close> raises
  \<^verbatim>\<open>IndexError\<close> instead of returning no chart.
\<close>

theorem services_chart_raises_counterexample:
  "df_empty header_only_services \<and>
   create_services_chart header_only_services = Inl IndexError \<and>
   create_services_chart header_only_services \<noteq> Inr None"
  by code_simp

text \<open>On every empty table the constructor of the simplified visualizer raises.\<close>

lemma services_chart_raises_on_empty:
  assumes "df_empty df"
  shows "\<exists>e. create_services_chart df = Inl e"
proof (cases "rows df = []")
  case True
  then have "rows (head 10 (sort_desc ''Total Services'' df)) = []"
    by (simp add: head_def sort_desc_def)
  then show ?thesis
    by (simp add: create_services_chart_def Let_def)
next
  case False
  with assms have "columns df = []" by (simp add: df_empty_def)
  then show ?thesis
    by (simp add: create_services_chart_def)
qed

lemma services_chart_draws:
  "create_services_chart two_services =
     Inr (Some \<lparr>title = ''Top 10 Services by Volume'',
                traces = [Bar [Str ''G0439'', Str ''99213''] [Num 50, Num 12]]\<rparr>)"
  by code_simp

section \<open>Properties of the payment comparison\<close>

lemma top_rank:
  fixes f :: "'a \<Rightarrow> 'k::linorder"
  assumes "x \<in> set (take n (sort_key f xs))"
  shows "length (filter (\<lambda>y. f y < f x) xs) < n"
proof -
  let ?ys = "sort_key f xs"
  from assms obtain i where i: "i < n" "i < length ?ys" and x: "?ys ! i = x"
    by (auto simp: in_set_conv_nth)
  have srt: "sorted (map f ?ys)" by simp
  have "filter (\<lambda>y. f y < f x) (drop i ?ys) = []"
  proof -
    have "\<not> f y < f x" if "y \<in> set (drop i ?ys)" for y
    proof -
      from that obtain j where j: "j < length (drop i ?ys)" and y: "drop i ?ys ! j = y"
        by (auto simp: in_set_conv_nth)
      then have "y = ?ys ! (i + j)" and ij: "i + j < length ?ys" by auto
      from srt ij have "map f ?ys ! i \<le> map f ?ys ! (i + j)"
        by (intro sorted_nth_mono) simp_all
      with i ij x \<open>y = ?ys ! (i + j)\<close> have "f x \<le> f y" by simp
      then show ?thesis by simp
    qed
    then show ?thesis by (simp add: filter_empty_conv)
  qed
  then have "filter (\<lambda>y. f y < f x) ?ys = filter (\<lambda>y. f y < f x) (take i ?ys)"
    by (metis append_Nil2 append_take_drop_id filter_append)
  then have "length (filter (\<lambda>y. f y < f x) ?ys) \<le> i"
    by (metis length_filter_le length_take min.cobounded2 le_trans)
  moreover have "length (filter (\<lambda>y. f y < f x) ?ys) = length (filter (\<lambda>y. f y < f x) xs)"
    by (simp add: filter_sort)
  ultimately show ?thesis using i(1) by simp
qed

lemma group_sum_volume:
  "group_sum fl (dt ''Tot_Srvcs'') df ''HCPCS_Cd'' ''Tot_Srvcs'' =
     map (\<lambda>k. (k, service_volume fl dt df k)) (service_codes df)"
  by (simp add: group_sum_def service_volume_def service_codes_def)

lemma top_services_length: "top_services fl dt df = Inr top_codes \<Longrightarrow> length top_codes \<le> 20"
  by (auto simp: top_services_def series_nlargest_def split: if_splits)

lemma top_services_rank:
  assumes "''Tot_Srvcs'' \<in> set (columns df)" and "top_services fl dt df = Inr top_codes"
    and "c \<in> set top_codes"
  shows "c \<in> set (service_codes df) \<and>
         length (filter (\<lambda>d. ranks_before (service_volume fl dt df d) (service_volume fl dt df c))
           (service_codes df)) < 20"
proof -
  let ?ser = "map (\<lambda>k. (k, service_volume fl dt df k)) (service_codes df)"
  let ?g = "\<lambda>kv :: cell \<times> cell. desc_key (snd kv)"
  from assms obtain v where cv: "(c, v) \<in> set (take 20 (sort_key ?g ?ser))"
    by (auto simp: top_services_def series_nlargest_def group_sum_volume split: if_splits)
  then have "(c, v) \<in> set (sort_key ?g ?ser)" by (rule in_set_takeD)
  then have mem: "c \<in> set (service_codes df)" and v: "v = service_volume fl dt df c"
    by auto
  from top_rank [OF cv] have "length (filter (\<lambda>y. ?g y < ?g (c, v)) ?ser) < 20" .
  then have "length (filter ((\<lambda>y. ?g y < ?g (c, v)) \<circ> (\<lambda>k. (k, service_volume fl dt df k)))
      (service_codes df)) < 20"
    by (simp add: filter_map)
  then have "length (filter (\<lambda>d. ranks_before (service_volume fl dt df d) (service_volume fl dt df c))
      (service_codes df)) < 20"
    by (simp add: v comp_def ranks_before_def)
  with mem show ?thesis by simp
qed

lemma groups_key: "k \<in> set (groups df by) \<Longrightarrow> \<exists>r \<in> set (rows df). k = row_key df by r"
  by (auto simp: groups_def)

lemma cc_payments_rows:
  assumes "l \<in> set (cc_payments fl dt df top_codes)"
  shows "\<exists>code desc a p t. l = [code, desc, a, p, t] \<and> code \<in> set top_codes"
proof -
  let ?sel = "select_rows (\<lambda>r. cell_at (columns df) r ''HCPCS_Cd'' \<in> set top_codes) df"
  from assms obtain k where k: "k \<in> set (groups ?sel [''HCPCS_Cd'', ''HCPCS_Desc''])"
    and l: "\<exists>a p t. l = k @ [a, p, t]"
    by (auto simp: cc_payments_def Let_def)
  from groups_key [OF k] obtain r where r: "r \<in> set (rows ?sel)"
    and kr: "k = row_key ?sel [''HCPCS_Cd'', ''HCPCS_Desc''] r" by blast
  from r have "cell_at (columns df) r ''HCPCS_Cd'' \<in> set top_codes"
    by (simp add: select_rows_def)
  with kr l show ?thesis
    by (auto simp: row_key_def select_rows_def)
qed

lemma ny_payments_rows:
  assumes "r \<in> set (ny_payments fl df top_codes)"
  shows "\<exists>k a p. r = [k, a, p]"
  using assms by (auto simp: ny_payments_def Let_def groups_def row_key_def)

lemma merged_code:
  assumes "r \<in> set (merge_payments fl (cc_payments fl dt cc top_codes) (ny_payments fl ny top_codes))"
  shows "cell_at comparison_columns r ''HCPCS Code'' \<in> set top_codes"
proof -
  from assms obtain l n where l: "l \<in> set (cc_payments fl dt cc top_codes)"
    and n: "n \<in> set (ny_payments fl ny top_codes)" and r: "r = comparison_row fl l n"
    by (auto simp: merge_payments_def)
  from cc_payments_rows [OF l] obtain code desc a p t where
    l': "l = [code, desc, a, p, t]" and code: "code \<in> set top_codes" by blast
  from ny_payments_rows [OF n] obtain k a' p' where n': "n = [k, a', p']" by blast
  have "cell_at comparison_columns r ''HCPCS Code'' = code"
    by (simp add: r l' n' cell_at_def comparison_columns_def)
  with code show ?thesis by simp
qed

lemma payment_comparison_cases:
  assumes "get_payment_comparison fl dtc cc dtn ny = Inr out"
  shows "out = empty_df \<or>
         (''Tot_Srvcs'' \<in> set (columns cc) \<and>
          (\<exists>top_codes. top_services fl dtc cc = Inr top_codes \<and>
             out = sort_desc ''Total Services''
                  \<lparr>columns = comparison_columns,
                   rows = merge_payments fl (cc_payments fl dtc cc top_codes)
                            (ny_payments fl ny top_codes)\<rparr>))"
  using assms
  by (auto simp: get_payment_comparison_def Let_def split: if_splits option.splits sum.splits)

lemma output_codes_in_top:
  assumes "get_payment_comparison fl dtc cc dtn ny = Inr out"
    and "c \<in> set (col_values out ''HCPCS Code'')"
  shows "''Tot_Srvcs'' \<in> set (columns cc) \<and>
         (\<exists>top_codes. top_services fl dtc cc = Inr top_codes \<and> c \<in> set top_codes)"
proof -
  from payment_comparison_cases [OF assms(1)] show ?thesis
  proof
    assume "out = empty_df"
    with assms(2) show ?thesis by (simp add: col_values_def empty_df_def)
  next
    assume "''Tot_Srvcs'' \<in> set (columns cc) \<and>
          (\<exists>top_codes. top_services fl dtc cc = Inr top_codes \<and>
             out = sort_desc ''Total Services''
                  \<lparr>columns = comparison_columns,
                   rows = merge_payments fl (cc_payments fl dtc cc top_codes)
                            (ny_payments fl ny top_codes)\<rparr>)"
    then obtain top_codes where m: "''Tot_Srvcs'' \<in> set (columns cc)"
      and tc: "top_services fl dtc cc = Inr top_codes"
      and out: "out = sort_desc ''Total Services''
                  \<lparr>columns = comparison_columns,
                   rows = merge_payments fl (cc_payments fl dtc cc top_codes)
                            (ny_payments fl ny top_codes)\<rparr>"
      by blast
    from assms(2) obtain r where
      "r \<in> set (merge_payments fl (cc_payments fl dtc cc top_codes) (ny_payments fl ny top_codes))"
      and "c = cell_at comparison_columns r ''HCPCS Code''"
      by (auto simp: out col_values_def sort_desc_def)
    with merged_code [of r fl dtc cc top_codes ny] m tc show ?thesis by simp
  qed
qed

text \<open>
  C2 (amended). Whenever \<open>get_payment_comparison\<close> returns a table, the table holds at
  most 20 distinct service codes, and each of them is a service code of the population
  that fewer than 20 codes precede in the descending order of the summed volume as the code
  computes it: a sum of 64-bit integers that wraps around, or a floating-point sum.
\<close>

theorem payment_comparison_top20:
  assumes "get_payment_comparison fl dt_cc cc dt_ny ny = Inr out"
  shows "length (remdups (col_values out ''HCPCS Code'')) \<le> 20 \<and>
         (\<forall>c \<in> set (col_values out ''HCPCS Code'').
            c \<in> set (service_codes cc) \<and>
            length (filter (\<lambda>d. ranks_before (service_volume fl dt_cc cc d) (service_volume fl dt_cc cc c))
              (service_codes cc)) < 20)"
proof
  show "length (remdups (col_values out ''HCPCS Code'')) \<le> 20"
  proof (cases "col_values out ''HCPCS Code'' = []")
    case True
    then show ?thesis by simp
  next
    case False
    then obtain c where "c \<in> set (col_values out ''HCPCS Code'')"
      by (cases "col_values out ''HCPCS Code''") auto
    from output_codes_in_top [OF assms this] obtain top_codes where
      tc: "top_services fl dt_cc cc = Inr top_codes" by blast
    have sub: "set (col_values out ''HCPCS Code'') \<subseteq> set top_codes"
      using output_codes_in_top [OF assms] tc by auto
    have "length (remdups (col_values out ''HCPCS Code'')) = card (set (col_values out ''HCPCS Code''))"
      by (rule length_remdups_card_conv)
    also have "\<dots> \<le> card (set top_codes)"
      by (rule card_mono [OF _ sub]) simp
    also have "\<dots> \<le> length top_codes"
      by (rule card_length)
    also have "\<dots> \<le> 20"
      using tc by (rule top_services_length)
    finally show ?thesis .
  qed
  show "\<forall>c \<in> set (col_values out ''HCPCS Code'').
            c \<in> set (service_codes cc) \<and>
            length (filter (\<lambda>d. ranks_before (service_volume fl dt_cc cc d) (service_volume fl dt_cc cc c))
              (service_codes cc)) < 20"
  proof
    fix c assume "c \<in> set (col_values out ''HCPCS Code'')"
    from output_codes_in_top [OF assms this] obtain top_codes where
      "''Tot_Srvcs'' \<in> set (columns cc)" "top_services fl dt_cc cc = Inr top_codes" "c \<in> set top_codes"
      by blast
    then show "c \<in> set (service_codes cc) \<and>
            length (filter (\<lambda>d. ranks_before (service_volume fl dt_cc cc d) (service_volume fl dt_cc cc c))
              (service_codes cc)) < 20"
      by (rule top_services_rank)
  qed
qed

theorem payment_comparison_top20_witness:
  "length (service_codes services25) = 25 \<and>
   output_codes (get_payment_comparison exact_floats service_dtypes services25 service_dtypes services25) =
     [Str ''S25'', Str ''S24'', Str ''S23'', Str ''S22'', Str ''S21'', Str ''S20'', Str ''S19'', Str ''S18'', Str ''S17'', Str ''S16'', Str ''S15'', Str ''S14'', Str ''S13'', Str ''S12'', Str ''S11'', Str ''S10'', Str ''S09'', Str ''S08'', Str ''S07'', Str ''S06''] \<and>
   length (remdups (output_codes
     (get_payment_comparison exact_floats service_dtypes services25 service_dtypes services25))) \<le> 20 \<and>
   Str ''S06'' \<in> set (service_codes services25) \<and>
   service_volume exact_floats service_dtypes services25 (Str ''S06'') = Num 6 \<and>
   length (filter (\<lambda>d. ranks_before (service_volume exact_floats service_dtypes services25 d)
                         (service_volume exact_floats service_dtypes services25 (Str ''S06'')))
     (service_codes services25)) < 20"
proof -
  let ?run = "get_payment_comparison exact_floats service_dtypes services25 service_dtypes services25"
  have n: "length (service_codes services25) = 25" by code_simp
  have c: "output_codes ?run = [Str ''S25'', Str ''S24'', Str ''S23'', Str ''S22'', Str ''S21'', Str ''S20'', Str ''S19'', Str ''S18'', Str ''S17'', Str ''S16'', Str ''S15'', Str ''S14'', Str ''S13'', Str ''S12'', Str ''S11'', Str ''S10'', Str ''S09'', Str ''S08'', Str ''S07'', Str ''S06'']"
    by code_simp
  have v: "service_volume exact_floats service_dtypes services25 (Str ''S06'') = Num 6" by code_simp
  from c obtain out where run: "?run = Inr out"
    by (cases ?run) (simp_all add: output_codes_def)
  with c have o: "col_values out ''HCPCS Code'' = output_codes ?run"
    by (simp add: output_codes_def)
  from c have m: "Str ''S06'' \<in> set (output_codes ?run)" by simp
  note t = payment_comparison_top20 [OF run, unfolded o]
  from t have "length (remdups (output_codes ?run)) \<le> 20" by blast
  moreover from t m have "Str ''S06'' \<in> set (service_codes services25) \<and>
      length (filter (\<lambda>d. ranks_before (service_volume exact_floats service_dtypes services25 d)
                            (service_volume exact_floats service_dtypes services25 (Str ''S06'')))
        (service_codes services25)) < 20"
    by blast
  ultimately show ?thesis using n c v by blast
qed

text \<open>
  C2 as stated fails on a column of integers whose sum leaves the 64-bit range: of 21
  codes the code \<open>S01\<close> has the largest summed volume, \<open>2^63\<close>, which the code computes
  as \<open>-2^63\<close>; the comparison leaves this code out and holds the code \<open>S02\<close>, which 20
  codes exceed in summed volume.
\<close>

theorem int64_wrap_counterexample:
  "length (service_codes overflow_services) = 21 \<and>
   exact_volume overflow_services (Str ''S01'') = 9223372036854775808 \<and>
   list_all (\<lambda>d. exact_volume overflow_services d \<le> exact_volume overflow_services (Str ''S01''))
     (service_codes overflow_services) \<and>
   service_volume exact_floats service_dtypes overflow_services (Str ''S01'') =
     Num (- 9223372036854775808) \<and>
   output_codes (get_payment_comparison exact_floats service_dtypes overflow_services
       service_dtypes overflow_services) =
     [Str ''S21'', Str ''S20'', Str ''S19'', Str ''S18'', Str ''S17'', Str ''S16'', Str ''S15'', Str ''S14'', Str ''S13'', Str ''S12'', Str ''S11'', Str ''S10'', Str ''S09'', Str ''S08'', Str ''S07'', Str ''S06'', Str ''S05'', Str ''S04'', Str ''S03'', Str ''S02''] \<and>
   length (filter (\<lambda>d. exact_volume overflow_services (Str ''S02'') < exact_volume overflow_services d)
     (service_codes overflow_services)) = 20"
  by code_simp

text \<open>
  With the columns it reads present in both tables and of a numeric dtype, the comparison
  returns a table with the eleven output columns. On a column of integers the summed
  volume of a code is the exact sum when that sum is in the 64-bit range.
\<close>

lemma payment_comparison_returns:
  assumes "\<not> df_empty cc" and "\<not> df_empty ny"
    and "set (required_cols @ [''HCPCS_Desc'', ''Tot_Srvcs'']) \<subseteq> set (columns cc)"
    and "set required_cols \<subseteq> set (columns ny)"
    and "\<forall>col \<in> set [''Avg_Mdcr_Alowd_Amt'', ''Avg_Mdcr_Pymt_Amt'', ''Tot_Srvcs'']. dt col \<noteq> Object"
  shows "\<exists>out. get_payment_comparison fl dt cc dt ny = Inr out \<and> columns out = comparison_columns"
  using assms
  by (simp add: get_payment_comparison_def required_cols_def Let_def sort_desc_def top_services_def)

lemma volume_exact:
  assumes "dt ''Tot_Srvcs'' = Int64"
    and "exact_volume df code = of_int n" and "- (2 ^ 63) \<le> n" and "n < 2 ^ 63"
    and "\<forall>q \<in> set (numbers (col_values (select_rows (\<lambda>r. cell_at (columns df) r ''HCPCS_Cd'' = code) df)
           ''Tot_Srvcs'')). q \<in> \<int>"
  shows "service_volume fl dt df code = Num (exact_volume df code)"
proof -
  let ?qs = "numbers (col_values (select_rows (\<lambda>r. cell_at (columns df) r ''HCPCS_Cd'' = code) df)
           ''Tot_Srvcs'')"
  have "of_int (sum_list (map floor qs)) = sum_list qs" if "\<forall>q \<in> set qs. q \<in> \<int>" for qs :: "rat list"
    using that by (induction qs) (auto simp: Ints_def)
  from this [OF assms(5)] assms(2) have "(of_int (sum_list (map floor ?qs)) :: rat) = of_int n"
    by (simp add: exact_volume_def)
  then have s: "sum_list (map floor ?qs) = n" by (simp only: of_int_eq_iff)
  from assms(3,4) have "wrap64 n = n"
    by (simp add: wrap64_def)
  with s assms(1,2) show ?thesis
    by (simp add: service_volume_def agg_sum_def exact_volume_def)
qed

end
